theory Spec2Isabelle
  imports Main "HOL-Library.AList"
begin

section \<open>Strings\<close>

text \<open>
  Go strings are byte sequences; they are modelled as \<open>string\<close> (lists of 8-bit
  characters). \<open>ToLower\<close> models \<^verbatim>\<open>strings.ToLower\<close> on ASCII text, the alphabet of host
  names: the letters \<open>A\<close> to \<open>Z\<close> are mapped to \<open>a\<close> to \<open>z\<close> and every other byte is
  kept. On a string with a byte above 0x7F the Go function also maps the capital letters
  of other alphabets and replaces invalid UTF-8 by U+FFFD; there the model, which keeps
  these bytes, does not follow it.
\<close>

definition lower_char :: "char \<Rightarrow> char" where
  "lower_char c =
     (case map_of (zip ''ABCDEFGHIJKLMNOPQRSTUVWXYZ'' ''abcdefghijklmnopqrstuvwxyz'') c of
        Some l \<Rightarrow> l
      | None \<Rightarrow> c)"

definition ToLower :: "string \<Rightarrow> string" where
  "ToLower s = map lower_char s"

text \<open>
  \<^verbatim>\<open>strings.Split(s, ".")\<close>: the pieces of \<open>s\<close> between the dots; a string without a dot,
  the empty string included, is one piece.
\<close>

fun Split :: "string \<Rightarrow> string list" where
  "Split [] = [[]]"
| "Split (c # cs) =
     (if c = CHR ''.'' then [] # Split cs
      else (case Split cs of
              [] \<Rightarrow> [[c]]
            | p # ps \<Rightarrow> (c # p) # ps))"

text \<open>\<^verbatim>\<open>strings.Join(parts, ".")\<close>.\<close>

fun Join :: "string list \<Rightarrow> string" where
  "Join [] = []"
| "Join [p] = p"
| "Join (p # q # ps) = p @ ''.'' @ Join (q # ps)"

section \<open>The service catalog and the domain matcher (analyzer.go)\<close>

record AIService =
  Name :: string
  Category :: string
  Domains :: "string list"

text \<open>The analyzer holds the domain index, a Go map from domain to owning service.\<close>

record Analyzer =
  domainMap :: "string \<rightharpoonup> AIService"

text \<open>
  The two nested loops shared by \<^verbatim>\<open>New\<close> and \<^verbatim>\<open>LoadCustomDomains\<close>:
  \<^verbatim>\<open>for _, svc := range sf.Services { for _, domain := range svc.Domains {
      a.domainMap[strings.ToLower(domain)] = svc } }\<close>
\<close>

fun insertDomains :: "(string \<rightharpoonup> AIService) \<Rightarrow> AIService \<Rightarrow> string list \<Rightarrow> (string \<rightharpoonup> AIService)" where
  "insertDomains m svc [] = m"
| "insertDomains m svc (d # ds) = insertDomains (m(ToLower d \<mapsto> svc)) svc ds"

fun insertServices :: "(string \<rightharpoonup> AIService) \<Rightarrow> AIService list \<Rightarrow> (string \<rightharpoonup> AIService)" where
  "insertServices m [] = m"
| "insertServices m (svc # svcs) = insertServices (insertDomains m svc (Domains svc)) svcs"

text \<open>
  Reading and decoding the JSON file is done by the Go library; its outcome is the
  input of the model.
\<close>

datatype servicesFile = Unreadable | Undecodable | Services "AIService list"

text \<open>The errors returned by the analyzer and by the parsers, one constructor per message.\<close>

datatype error =
    ReadingFile
  | ParsingFile
  | OpeningLog
  | ReadingLog
  | ParsingCSV
  | NoDataRows
  | MissingDestinationColumn
  | NotEnoughFields
  | BadTimestamp
  | NotDnsmasq
  | MalformedQuery
  | UnexpectedFormat

fun New :: "servicesFile \<Rightarrow> error + Analyzer" where
  "New Unreadable = Inl ReadingFile"
| "New Undecodable = Inl ParsingFile"
| "New (Services svcs) = Inr \<lparr>domainMap = insertServices Map.empty svcs\<rparr>"

fun LoadCustomDomains :: "Analyzer \<Rightarrow> servicesFile \<Rightarrow> error + Analyzer" where
  "LoadCustomDomains a Unreadable = Inl ReadingFile"
| "LoadCustomDomains a Undecodable = Inl ParsingFile"
| "LoadCustomDomains a (Services svcs) =
     Inr (a\<lparr>domainMap := insertServices (domainMap a) svcs\<rparr>)"

text \<open>
  The suffix loop of \<^verbatim>\<open>matchDomain\<close>:
  \<^verbatim>\<open>for i := 1; i < len(parts)-1; i++ { parent := strings.Join(parts[i:], "."); ... }\<close>
\<close>

function matchLoop :: "(string \<rightharpoonup> AIService) \<Rightarrow> string list \<Rightarrow> nat \<Rightarrow> AIService option" where
  "matchLoop m parts i =
     (if int i < int (length parts) - 1
      then (case m (Join (drop i parts)) of
              Some svc \<Rightarrow> Some svc
            | None \<Rightarrow> matchLoop m parts (i + 1))
      else None)"
  by pat_completeness auto
termination
  by (relation "measure (\<lambda>(m, parts, i). length parts - i)") auto

definition matchDomain :: "Analyzer \<Rightarrow> string \<Rightarrow> AIService option" where
  "matchDomain a domain =
     (let domain = ToLower domain in
      case domainMap a domain of
        Some svc \<Rightarrow> Some svc
      | None \<Rightarrow> matchLoop (domainMap a) (Split domain) 1)"

section \<open>Log entries (parser.go)\<close>

text \<open>
  A \<^verbatim>\<open>time.Time\<close> is modelled by its civil fields and its zone offset in seconds.
  The zero value is January 1 of year 1, 00:00:00 UTC.
\<close>

record Time =
  Year :: int
  Month :: nat
  Day :: nat
  Hour :: nat
  Minute :: nat
  Second :: nat
  Nanosecond :: nat
  ZoneOffset :: int

definition zeroTime :: Time where
  "zeroTime = \<lparr>Year = 1, Month = 1, Day = 1, Hour = 0, Minute = 0, Second = 0,
               Nanosecond = 0, ZoneOffset = 0\<rparr>"

record LogEntry =
  Timestamp :: Time
  SourceIP :: string
  Domain :: string
  URL :: string
  Method :: string
  StatusCode :: string
  BytesSent :: int
  RawLine :: string

text \<open>The zero value \<^verbatim>\<open>LogEntry{}\<close>.\<close>

definition emptyEntry :: LogEntry where
  "emptyEntry = \<lparr>Timestamp = zeroTime, SourceIP = [], Domain = [], URL = [], Method = [],
                 StatusCode = [], BytesSent = 0, RawLine = []\<rparr>"

section \<open>The aggregator (analyzer.go)\<close>

record Finding =
  Timestamp :: Time
  SourceIP :: string
  ServiceName :: string
  Category :: string
  Domain :: string
  URL :: string
  Method :: string
  StatusCode :: string
  BytesSent :: int

text \<open>
  The two counter maps of a summary are Go maps from string to int. They are modelled
  as association lists with pairwise distinct keys, so that \<^verbatim>\<open>len(m)\<close> is the
  length of the list; the order of the pairs has no counterpart in the program.
\<close>

type_synonym counters = "(string \<times> nat) list"

record Summary =
  TotalLogsScanned :: nat
  TotalFindings :: nat
  UniqueUsers :: nat
  UniqueServices :: nat
  Findings :: "Finding list"
  ByUser :: counters
  ByService :: counters

text \<open>\<^verbatim>\<open>m[k]++\<close>: a missing key reads as zero.\<close>

definition increment :: "counters \<Rightarrow> string \<Rightarrow> counters" where
  "increment m k =
     AList.update k ((case map_of m k of None \<Rightarrow> 0 | Some n \<Rightarrow> n) + 1) m"

definition makeFinding :: "LogEntry \<Rightarrow> AIService \<Rightarrow> Finding" where
  "makeFinding entry svc =
     \<lparr>Finding.Timestamp = LogEntry.Timestamp entry,
      Finding.SourceIP = LogEntry.SourceIP entry,
      ServiceName = Name svc,
      Finding.Category = AIService.Category svc,
      Finding.Domain = LogEntry.Domain entry,
      Finding.URL = LogEntry.URL entry,
      Finding.Method = LogEntry.Method entry,
      Finding.StatusCode = LogEntry.StatusCode entry,
      Finding.BytesSent = LogEntry.BytesSent entry\<rparr>"

text \<open>The body of the loop \<^verbatim>\<open>for _, entry := range entries\<close> of \<^verbatim>\<open>Analyze\<close>.\<close>

fun analyzeLoop :: "Analyzer \<Rightarrow> Summary \<Rightarrow> LogEntry list \<Rightarrow> Summary" where
  "analyzeLoop a summary [] = summary"
| "analyzeLoop a summary (entry # entries) =
     (case matchDomain a (LogEntry.Domain entry) of
        None \<Rightarrow> analyzeLoop a summary entries
      | Some svc \<Rightarrow>
          analyzeLoop a
            (summary\<lparr>Findings := Findings summary @ [makeFinding entry svc],
                     ByUser := increment (ByUser summary) (LogEntry.SourceIP entry),
                     ByService := increment (ByService summary) (Name svc)\<rparr>)
            entries)"

definition Analyze :: "Analyzer \<Rightarrow> LogEntry list \<Rightarrow> Summary" where
  "Analyze a entries =
     (let summary = analyzeLoop a
            \<lparr>TotalLogsScanned = length entries, TotalFindings = 0, UniqueUsers = 0,
             UniqueServices = 0, Findings = [], ByUser = [], ByService = []\<rparr>
            entries
      in summary\<lparr>TotalFindings := length (Findings summary),
                 UniqueUsers := length (ByUser summary),
                 UniqueServices := length (ByService summary)\<rparr>)"

section \<open>String functions of the Go library used by the parsers\<close>

text \<open>
  White space is what \<^verbatim>\<open>unicode.IsSpace\<close> accepts: tab, line feed, vertical tab, form
  feed, carriage return, space, U+0085, U+00A0, U+1680, U+2000 to U+200A, U+2028, U+2029,
  U+202F, U+205F and U+3000. A Go string is a byte sequence that the library decodes as
  UTF-8, so each of these characters is listed by its bytes. The first byte of every
  listed sequence is not a continuation byte and its other bytes are continuation bytes,
  so wherever the bytes of a sequence occur in a string the decoder reads them as that
  character, both from the left and from the right.
\<close>

definition whiteSpace :: "string list" where
  "whiteSpace =
     [[CHR 0x09], [CHR 0x0A], [CHR 0x0B], [CHR 0x0C], [CHR 0x0D], [CHR 0x20],
      [CHR 0xC2, CHR 0x85], [CHR 0xC2, CHR 0xA0],
      [CHR 0xE1, CHR 0x9A, CHR 0x80],
      [CHR 0xE2, CHR 0x80, CHR 0x80], [CHR 0xE2, CHR 0x80, CHR 0x81],
      [CHR 0xE2, CHR 0x80, CHR 0x82], [CHR 0xE2, CHR 0x80, CHR 0x83],
      [CHR 0xE2, CHR 0x80, CHR 0x84], [CHR 0xE2, CHR 0x80, CHR 0x85],
      [CHR 0xE2, CHR 0x80, CHR 0x86], [CHR 0xE2, CHR 0x80, CHR 0x87],
      [CHR 0xE2, CHR 0x80, CHR 0x88], [CHR 0xE2, CHR 0x80, CHR 0x89],
      [CHR 0xE2, CHR 0x80, CHR 0x8A],
      [CHR 0xE2, CHR 0x80, CHR 0xA8], [CHR 0xE2, CHR 0x80, CHR 0xA9],
      [CHR 0xE2, CHR 0x80, CHR 0xAF],
      [CHR 0xE2, CHR 0x81, CHR 0x9F],
      [CHR 0xE3, CHR 0x80, CHR 0x80]]"

text \<open>
  The number of bytes of the white space character a string begins with, and of the one
  it ends with; \<open>0\<close> when there is none.
\<close>

definition spaceWidth :: "string \<Rightarrow> nat" where
  "spaceWidth s =
     (case find (\<lambda>w. take (length w) s = w) whiteSpace of
        None \<Rightarrow> 0
      | Some w \<Rightarrow> length w)"

definition spaceWidthEnd :: "string \<Rightarrow> nat" where
  "spaceWidthEnd s =
     (case find (\<lambda>w. length w \<le> length s \<and> drop (length s - length w) s = w) whiteSpace of
        None \<Rightarrow> 0
      | Some w \<Rightarrow> length w)"

text \<open>
  \<^verbatim>\<open>strings.Fields\<close>: the maximal runs of bytes between white space characters.
  \<open>cur\<close> is the field being read.
\<close>

function fieldsFrom :: "string \<Rightarrow> string \<Rightarrow> string list" where
  "fieldsFrom cur s =
     (if s = [] then (if cur = [] then [] else [cur])
      else if 0 < spaceWidth s
      then (if cur = [] then fieldsFrom [] (drop (spaceWidth s) s)
            else cur # fieldsFrom [] (drop (spaceWidth s) s))
      else fieldsFrom (cur @ [hd s]) (tl s))"
  by pat_completeness auto
termination
  by (relation "measure (\<lambda>(cur, s). length s)") auto

definition Fields :: "string \<Rightarrow> string list" where
  "Fields s = fieldsFrom [] s"

text \<open>\<^verbatim>\<open>strings.TrimSpace\<close>: white space is removed at the left, then at the right.\<close>

function TrimLeftSpace :: "string \<Rightarrow> string" where
  "TrimLeftSpace s =
     (if s \<noteq> [] \<and> 0 < spaceWidth s then TrimLeftSpace (drop (spaceWidth s) s) else s)"
  by pat_completeness auto
termination
  by (relation "measure length") auto

function TrimRightSpace :: "string \<Rightarrow> string" where
  "TrimRightSpace s =
     (if s \<noteq> [] \<and> 0 < spaceWidthEnd s
      then TrimRightSpace (take (length s - spaceWidthEnd s) s) else s)"
  by pat_completeness auto
termination
  by (relation "measure length") auto

definition TrimSpace :: "string \<Rightarrow> string" where
  "TrimSpace s = TrimRightSpace (TrimLeftSpace s)"

definition HasPrefix :: "string \<Rightarrow> string \<Rightarrow> bool" where
  "HasPrefix s p \<longleftrightarrow> take (length p) s = p"

text \<open>\<^verbatim>\<open>strings.TrimSuffix\<close> removes one occurrence of the suffix, when there is one.\<close>

definition TrimSuffix :: "string \<Rightarrow> string \<Rightarrow> string" where
  "TrimSuffix s suf =
     (if length suf \<le> length s \<and> drop (length s - length suf) s = suf
      then take (length s - length suf) s else s)"

text \<open>\<^verbatim>\<open>strings.Index\<close>: the position of the first occurrence, or \<open>-1\<close>.\<close>

fun Index :: "string \<Rightarrow> string \<Rightarrow> int" where
  "Index [] sub = (if sub = [] then 0 else -1)"
| "Index (c # cs) sub =
     (if take (length sub) (c # cs) = sub then 0
      else (let r = Index cs sub in if r = -1 then -1 else r + 1))"

definition Contains :: "string \<Rightarrow> string \<Rightarrow> bool" where
  "Contains s sub \<longleftrightarrow> 0 \<le> Index s sub"

text \<open>\<^verbatim>\<open>strings.SplitN(s, sep, 2)\<close> for a separator of one character.\<close>

definition SplitN2 :: "string \<Rightarrow> char \<Rightarrow> string list" where
  "SplitN2 s sep =
     (if sep \<in> set s
      then [takeWhile (\<lambda>c. c \<noteq> sep) s, drop 1 (dropWhile (\<lambda>c. c \<noteq> sep) s)]
      else [s])"

text \<open>\<^verbatim>\<open>strings.Join\<close> with an arbitrary separator.\<close>

fun JoinWith :: "string \<Rightarrow> string list \<Rightarrow> string" where
  "JoinWith sep [] = []"
| "JoinWith sep [p] = p"
| "JoinWith sep (p # q # ps) = p @ sep @ JoinWith sep (q # ps)"

section \<open>The Go library functions taken as parameters\<close>

text \<open>
  The parsers call into the Go standard library for times, numbers and URLs. These
  functions are parameters of the model:
  \<^item> \<open>timeParse layout value\<close> is \<^verbatim>\<open>time.Parse(layout, value)\<close>, \<open>None\<close> for an error;
  \<^item> \<open>parseUnixTime s\<close> is \<^verbatim>\<open>strconv.ParseFloat(s, 64)\<close> followed by
    \<^verbatim>\<open>time.Unix(int64(f), 0).UTC()\<close>, \<open>None\<close> when \<^verbatim>\<open>ParseFloat\<close> fails;
  \<^item> \<open>ParseInt s\<close> is the value returned by \<^verbatim>\<open>strconv.ParseInt(s, 10, 64)\<close>, whose
    error the parsers drop;
  \<^item> \<open>urlHostname s\<close> is \<^verbatim>\<open>url.Parse(s)\<close> followed by \<^verbatim>\<open>Hostname()\<close>, \<open>None\<close> when
    \<^verbatim>\<open>url.Parse\<close> fails;
  \<^item> \<open>nowYear\<close> is \<^verbatim>\<open>time.Now().Year()\<close>.
\<close>

record GoLib =
  timeParse :: "string \<Rightarrow> string \<Rightarrow> Time option"
  parseUnixTime :: "string \<Rightarrow> Time option"
  ParseInt :: "string \<Rightarrow> int"
  urlHostname :: "string \<Rightarrow> string option"
  nowYear :: int

definition RFC3339 :: string where
  "RFC3339 = ''2006-01-02T15:04:05Z07:00''"

text \<open>
  \<^verbatim>\<open>t.AddDate(years, 0, 0)\<close> adds the years to the date and normalises the result as
  \<^verbatim>\<open>time.Date\<close> does: a day beyond the end of its month rolls over into the next
  month. For a valid date this moves February 29 to March 1 when the new year is not a
  leap year and changes nothing else.
\<close>

definition isLeap :: "int \<Rightarrow> bool" where
  "isLeap y \<longleftrightarrow> y mod 4 = 0 \<and> (y mod 100 \<noteq> 0 \<or> y mod 400 = 0)"

definition daysIn :: "nat \<Rightarrow> int \<Rightarrow> nat" where
  "daysIn m y =
     (if m = 2 then (if isLeap y then 29 else 28)
      else if m \<in> set [4, 6, 9, 11] then 30 else 31)"

definition AddDate :: "Time \<Rightarrow> int \<Rightarrow> Time" where
  "AddDate t years =
     (let y = Year t + years; m = Month t; d = Day t in
      if d \<le> daysIn m y then t\<lparr>Year := y\<rparr>
      else if m = 12 then t\<lparr>Year := y + 1, Month := 1, Day := d - daysIn m y\<rparr>
      else t\<lparr>Year := y, Month := m + 1, Day := d - daysIn m y\<rparr>)"

section \<open>The Squid parser\<close>

text \<open>
  A log file as the parsers see it: it cannot be opened, or the scanner yields its
  lines and ends with or without an error (a failing read, or a line longer than the
  buffer of the scanner).
\<close>

datatype textFile = OpenError | TextFile "string list" bool

definition extractDomain :: "GoLib \<Rightarrow> string \<Rightarrow> string" where
  "extractDomain lib rawURL =
     (if \<not> Contains rawURL ''://''
      then (let host = SplitN2 rawURL CHR '':'' ! 0 in ToLower host)
      else (case urlHostname lib rawURL of
              None \<Rightarrow> []
            | Some host \<Rightarrow> ToLower host))"

definition parseSquidLine :: "GoLib \<Rightarrow> string \<Rightarrow> error + LogEntry" where
  "parseSquidLine lib line =
     (let fields = Fields line in
      if length fields < 8 then Inl NotEnoughFields
      else (case parseUnixTime lib (fields ! 0) of
              None \<Rightarrow> Inl BadTimestamp
            | Some ts \<Rightarrow>
                (let sourceIP = fields ! 2;
                     parts = SplitN2 (fields ! 3) CHR ''/'';
                     statusCode = (if length parts = 2 then parts ! 1 else []);
                     bytesSent = ParseInt lib (fields ! 4);
                     method = fields ! 5;
                     rawURL = fields ! 6;
                     domain = extractDomain lib rawURL
                 in Inr \<lparr>LogEntry.Timestamp = ts, LogEntry.SourceIP = sourceIP,
                         LogEntry.Domain = domain, LogEntry.URL = rawURL,
                         LogEntry.Method = method, LogEntry.StatusCode = statusCode,
                         LogEntry.BytesSent = bytesSent, RawLine = line\<rparr>)))"

text \<open>Blank lines and comment lines are passed over by the Squid and the DNS parser.\<close>

definition skipLine :: "string \<Rightarrow> bool" where
  "skipLine line \<longleftrightarrow> TrimSpace line = [] \<or> HasPrefix line ''#''"

fun squidLoop :: "GoLib \<Rightarrow> LogEntry list \<Rightarrow> string list \<Rightarrow> LogEntry list" where
  "squidLoop lib entries [] = entries"
| "squidLoop lib entries (line # rest) =
     (if skipLine line then squidLoop lib entries rest
      else (case parseSquidLine lib line of
              Inl err \<Rightarrow> squidLoop lib entries rest
            | Inr entry \<Rightarrow> squidLoop lib (entries @ [entry]) rest))"

fun squidParse :: "GoLib \<Rightarrow> textFile \<Rightarrow> error + LogEntry list" where
  "squidParse lib OpenError = Inl OpeningLog"
| "squidParse lib (TextFile lines scanErr) =
     (let entries = squidLoop lib [] lines in
      if scanErr then Inl ReadingLog else Inr entries)"

section \<open>The DNS parser (dns.go)\<close>

definition parseSimpleDNS :: "GoLib \<Rightarrow> string \<Rightarrow> error + LogEntry" where
  "parseSimpleDNS lib line =
     (let fields = Fields line in
      if length fields < 3 then Inl NotEnoughFields
      else (case timeParse lib RFC3339 (fields ! 0) of
              None \<Rightarrow> Inl BadTimestamp
            | Some ts \<Rightarrow>
                Inr (emptyEntry\<lparr>LogEntry.Timestamp := ts,
                                LogEntry.SourceIP := fields ! 1,
                                LogEntry.Domain := ToLower (TrimSuffix (fields ! 2) ''.''),
                                RawLine := line\<rparr>)))"

text \<open>
  The text handed to \<^verbatim>\<open>time.Parse\<close> by \<^verbatim>\<open>parseDnsmasq\<close>: what precedes the marker
  at \<open>qIdx\<close>, cut before \<^verbatim>\<open>dnsmasq\<close> and reduced to its first three fields when a host
  name follows them.
\<close>

definition timestampText :: "string \<Rightarrow> int \<Rightarrow> string" where
  "timestampText line qIdx =
     (let tsPart = TrimSpace (take (nat qIdx) line);
          dnsmasqIdx = Index tsPart ''dnsmasq''
      in if dnsmasqIdx > 0
         then (let tsPart = TrimSpace (take (nat dnsmasqIdx) tsPart);
                   tsFields = Fields tsPart
               in if length tsFields \<ge> 4 then JoinWith '' '' (take 3 tsFields) else tsPart)
         else tsPart)"

definition parseDnsmasq :: "GoLib \<Rightarrow> string \<Rightarrow> error + LogEntry" where
  "parseDnsmasq lib line =
     (let qIdx = Index line ''query['' in
      if qIdx = -1 then Inl NotDnsmasq
      else (let afterQuery = drop (nat qIdx) line;
                closeBracket = Index afterQuery ''] ''
            in if closeBracket = -1 then Inl MalformedQuery
               else (let rest = drop (nat (closeBracket + 2)) afterQuery;
                         parts = Fields rest
                     in if length parts < 3 \<or> parts ! 1 \<noteq> ''from'' then Inl UnexpectedFormat
                        else (let domain = ToLower (TrimSuffix (parts ! 0) ''.'');
                                  sourceIP = parts ! 2;
                                  tsPart = timestampText line qIdx;
                                  ts = (case timeParse lib ''Jan 2 15:04:05'' tsPart of
                                          None \<Rightarrow> zeroTime
                                        | Some t \<Rightarrow> AddDate t (nowYear lib))
                              in Inr (emptyEntry\<lparr>LogEntry.Timestamp := ts,
                                                 LogEntry.SourceIP := sourceIP,
                                                 LogEntry.Domain := domain,
                                                 RawLine := line\<rparr>)))))"

text \<open>One line of the DNS log: the simple dialect first, then the dnsmasq dialect.\<close>

definition parseDNSLine :: "GoLib \<Rightarrow> string \<Rightarrow> error + LogEntry" where
  "parseDNSLine lib line =
     (case parseSimpleDNS lib line of
        Inr entry \<Rightarrow> Inr entry
      | Inl err \<Rightarrow> parseDnsmasq lib line)"

fun dnsLoop :: "GoLib \<Rightarrow> LogEntry list \<Rightarrow> string list \<Rightarrow> LogEntry list" where
  "dnsLoop lib entries [] = entries"
| "dnsLoop lib entries (line # rest) =
     (if skipLine line then dnsLoop lib entries rest
      else (case parseDNSLine lib line of
              Inl err \<Rightarrow> dnsLoop lib entries rest
            | Inr entry \<Rightarrow> dnsLoop lib (entries @ [entry]) rest))"

fun dnsParse :: "GoLib \<Rightarrow> textFile \<Rightarrow> error + LogEntry list" where
  "dnsParse lib OpenError = Inl OpeningLog"
| "dnsParse lib (TextFile lines scanErr) =
     (let entries = dnsLoop lib [] lines in
      if scanErr then Inl ReadingLog else Inr entries)"

section \<open>The CSV parser\<close>

text \<open>
  A CSV file as the parser sees it: it cannot be opened; or the CSV reader of the Go
  library fails while it reads the file or splits its text into rows; or the reader
  splits the text into rows of fields (blank lines are no rows).
\<close>

datatype csvFile = CSVOpenError | CSVReadError | Rows "string list list"

text \<open>
  \<^verbatim>\<open>reader.ReadAll()\<close> on the rows of the file. \<^verbatim>\<open>Parse\<close> leaves the reader's
  \<^verbatim>\<open>FieldsPerRecord\<close> at 0, so the first row fixes the number of fields and a later
  row with another number of fields makes \<^verbatim>\<open>ReadAll\<close> fail, with no records returned.
\<close>

definition ReadAll :: "string list list \<Rightarrow> string list list option" where
  "ReadAll rows =
     (case rows of
        [] \<Rightarrow> Some []
      | first # rest \<Rightarrow>
          if list_all (\<lambda>row. length row = length first) rest then Some rows else None)"

text \<open>
  \<^verbatim>\<open>mapColumns\<close> maps the trimmed, lower-cased text of each header cell to its
  position; a later cell with the same text overwrites an earlier one.
\<close>

fun mapColumnsFrom :: "nat \<Rightarrow> (string \<rightharpoonup> nat) \<Rightarrow> string list \<Rightarrow> (string \<rightharpoonup> nat)" where
  "mapColumnsFrom i m [] = m"
| "mapColumnsFrom i m (col # cols) =
     mapColumnsFrom (i + 1) (m(ToLower (TrimSpace col) \<mapsto> i)) cols"

definition mapColumns :: "string list \<Rightarrow> (string \<rightharpoonup> nat)" where
  "mapColumns header = mapColumnsFrom 0 Map.empty header"

fun findCol :: "(string \<rightharpoonup> nat) \<Rightarrow> string list \<Rightarrow> int" where
  "findCol colMap [] = -1"
| "findCol colMap (name # names) =
     (case colMap name of
        Some idx \<Rightarrow> int idx
      | None \<Rightarrow> findCol colMap names)"

fun tryFormats :: "GoLib \<Rightarrow> string list \<Rightarrow> string \<Rightarrow> Time" where
  "tryFormats lib [] s = zeroTime"
| "tryFormats lib (f # fs) s =
     (case timeParse lib f s of
        Some t \<Rightarrow> t
      | None \<Rightarrow> tryFormats lib fs s)"

definition parseFlexibleTime :: "GoLib \<Rightarrow> string \<Rightarrow> Time" where
  "parseFlexibleTime lib s =
     tryFormats lib
       [RFC3339, ''2006-01-02T15:04:05'', ''2006-01-02 15:04:05'', ''01/02/2006 15:04:05'',
        ''02/Jan/2006:15:04:05 -0700'', ''Jan 2 15:04:05 2006'', ''2006-01-02'']
       (TrimSpace s)"

text \<open>A column index is usable in a row: \<^verbatim>\<open>col >= 0 && col < len(row)\<close>.\<close>

definition inRow :: "int \<Rightarrow> string list \<Rightarrow> bool" where
  "inRow col row \<longleftrightarrow> 0 \<le> col \<and> col < int (length row)"

text \<open>The entry built from one data row, before the test for an empty domain.\<close>

definition csvRow :: "GoLib \<Rightarrow> int \<Rightarrow> int \<Rightarrow> int \<Rightarrow> int \<Rightarrow> int \<Rightarrow> string list \<Rightarrow> LogEntry" where
  "csvRow lib tsCol srcCol dstCol bytesCol actionCol row =
     (let entry = emptyEntry\<lparr>RawLine := JoinWith '','' row\<rparr>;
          entry = (if inRow tsCol row
                   then entry\<lparr>LogEntry.Timestamp := parseFlexibleTime lib (row ! nat tsCol)\<rparr>
                   else entry);
          entry = (if inRow srcCol row
                   then entry\<lparr>LogEntry.SourceIP := TrimSpace (row ! nat srcCol)\<rparr>
                   else entry);
          entry = (if inRow dstCol row
                   then (let val = TrimSpace (row ! nat dstCol);
                             entry = entry\<lparr>LogEntry.Domain := ToLower val\<rparr>
                         in if Contains val ''://''
                            then entry\<lparr>LogEntry.URL := val,
                                       LogEntry.Domain := extractDomain lib val\<rparr>
                            else entry)
                   else entry);
          entry = (if inRow bytesCol row
                   then entry\<lparr>LogEntry.BytesSent := ParseInt lib (TrimSpace (row ! nat bytesCol))\<rparr>
                   else entry);
          entry = (if inRow actionCol row
                   then entry\<lparr>LogEntry.StatusCode := TrimSpace (row ! nat actionCol)\<rparr>
                   else entry)
      in entry)"

fun csvLoop :: "(string list \<Rightarrow> LogEntry) \<Rightarrow> LogEntry list \<Rightarrow> string list list \<Rightarrow> LogEntry list" where
  "csvLoop mk entries [] = entries"
| "csvLoop mk entries (row # rows) =
     (let entry = mk row in
      if LogEntry.Domain entry \<noteq> [] then csvLoop mk (entries @ [entry]) rows
      else csvLoop mk entries rows)"

text \<open>
  The index of the destination column, \<^verbatim>\<open>dstCol\<close> in \<^verbatim>\<open>Parse\<close>, or \<open>-1\<close> when
  the header has none.
\<close>

definition dstColumn :: "string list \<Rightarrow> int" where
  "dstColumn header =
     findCol (mapColumns header)
       [''destination'', ''dst'', ''domain'', ''host'', ''url'', ''dest'', ''dst_host'']"

fun csvParse :: "GoLib \<Rightarrow> csvFile \<Rightarrow> error + LogEntry list" where
  "csvParse lib CSVOpenError = Inl OpeningLog"
| "csvParse lib CSVReadError = Inl ParsingCSV"
| "csvParse lib (Rows rows) =
     (case ReadAll rows of
        None \<Rightarrow> Inl ParsingCSV
      | Some records \<Rightarrow>
          if length records < 2 then Inl NoDataRows
          else (let colMap = mapColumns (records ! 0);
                    tsCol = findCol colMap [''timestamp'', ''time'', ''date'', ''datetime''];
                    srcCol = findCol colMap [''source_ip'', ''src_ip'', ''src'', ''client_ip'', ''source''];
                    dstCol = dstColumn (records ! 0);
                    bytesCol = findCol colMap [''bytes'', ''bytes_sent'', ''size'', ''content_length''];
                    actionCol = findCol colMap [''action'', ''status'', ''status_code'', ''result'']
                in if dstCol = -1 then Inl MissingDestinationColumn
                   else Inr (csvLoop (csvRow lib tsCol srcCol dstCol bytesCol actionCol) []
                               (drop 1 records))))"

section \<open>Notions used to state the properties\<close>

text \<open>
  The matcher according to its description: the candidates tried after the exact
  lookup are the dot-joined suffixes of the label list that start at label index 1, 2, ...
  up to the second-to-last label; the first candidate owned by a service wins.
\<close>

definition suffixCandidates :: "string \<Rightarrow> string list" where
  "suffixCandidates d =
     map (\<lambda>i. Join (drop i (Split d))) [1 ..< length (Split d) - 1]"

fun firstHit :: "(string \<rightharpoonup> AIService) \<Rightarrow> string list \<Rightarrow> AIService option" where
  "firstHit m [] = None"
| "firstHit m (c # cs) = (case m c of Some svc \<Rightarrow> Some svc | None \<Rightarrow> firstHit m cs)"

text \<open>All suffixes of a string at label boundaries, the string itself first.\<close>

definition labelSuffixes :: "string \<Rightarrow> string list" where
  "labelSuffixes s = map (\<lambda>i. Join (drop i (Split s))) [0 ..< length (Split s)]"

text \<open>A service record lists a (lower-cased) domain key.\<close>

definition listsDomain :: "AIService \<Rightarrow> string \<Rightarrow> bool" where
  "listsDomain svc k \<longleftrightarrow> k \<in> ToLower ` set (Domains svc)"

text \<open>The last service of a catalog file that lists a key.\<close>

fun lastOwner :: "AIService list \<Rightarrow> string \<Rightarrow> AIService option" where
  "lastOwner [] k = None"
| "lastOwner (s # svcs) k =
     (case lastOwner svcs k of
        Some t \<Rightarrow> Some t
      | None \<Rightarrow> if listsDomain s k then Some s else None)"

text \<open>Every key of a domain index is in lower case.\<close>

definition lowerKeys :: "(string \<rightharpoonup> AIService) \<Rightarrow> bool" where
  "lowerKeys m \<longleftrightarrow> (\<forall>k \<in> dom m. ToLower k = k)"

text \<open>An entry is matched by the catalog; the finding built from a matched entry.\<close>

definition matched :: "Analyzer \<Rightarrow> LogEntry \<Rightarrow> bool" where
  "matched a entry \<longleftrightarrow> matchDomain a (LogEntry.Domain entry) \<noteq> None"

definition findingOf :: "Analyzer \<Rightarrow> LogEntry \<Rightarrow> Finding" where
  "findingOf a entry = makeFinding entry (the (matchDomain a (LogEntry.Domain entry)))"

text \<open>The sum of the counts of a counter map, and the loop invariant of \<^verbatim>\<open>Analyze\<close>.\<close>

definition total :: "counters \<Rightarrow> nat" where
  "total m = sum_list (map snd m)"

definition consistent :: "Summary \<Rightarrow> bool" where
  "consistent s \<longleftrightarrow>
     distinct (map fst (ByUser s)) \<and> distinct (map fst (ByService s))
     \<and> fst ` set (ByUser s) = Finding.SourceIP ` set (Findings s)
     \<and> fst ` set (ByService s) = ServiceName ` set (Findings s)
     \<and> total (ByUser s) = length (Findings s)
     \<and> total (ByService s) = length (Findings s)"

text \<open>
  The entries of the lines that are neither passed over nor rejected by a line parser,
  in the order of the lines.
\<close>

definition linesParsed :: "(string \<Rightarrow> error + LogEntry) \<Rightarrow> string list \<Rightarrow> LogEntry list" where
  "linesParsed p ls =
     List.map_filter
       (\<lambda>l. if skipLine l then None else (case p l of Inr e \<Rightarrow> Some e | Inl err \<Rightarrow> None)) ls"

text \<open>The entry of a CSV data row under a header, with the columns found as in \<^verbatim>\<open>Parse\<close>.\<close>

definition csvEntry :: "GoLib \<Rightarrow> string list \<Rightarrow> string list \<Rightarrow> LogEntry" where
  "csvEntry lib header =
     csvRow lib
       (findCol (mapColumns header) [''timestamp'', ''time'', ''date'', ''datetime''])
       (findCol (mapColumns header) [''source_ip'', ''src_ip'', ''src'', ''client_ip'', ''source''])
       (dstColumn header)
       (findCol (mapColumns header) [''bytes'', ''bytes_sent'', ''size'', ''content_length''])
       (findCol (mapColumns header) [''action'', ''status'', ''status_code'', ''result''])"

definition hasDomain :: "LogEntry \<Rightarrow> bool" where
  "hasDomain e \<longleftrightarrow> LogEntry.Domain e \<noteq> []"

text \<open>
  What \<^verbatim>\<open>time.Parse\<close> returns for a layout without a year: a valid date of the year 0,
  which is a leap year.
\<close>

definition parsedYearless :: "Time \<Rightarrow> bool" where
  "parsedYearless t \<longleftrightarrow>
     Year t = 0 \<and> 1 \<le> Month t \<and> Month t \<le> 12 \<and> 1 \<le> Day t \<and> Day t \<le> daysIn (Month t) 0"

text \<open>Every row of a CSV file has as many fields as the first row.\<close>

definition sameFieldCount :: "string list list \<Rightarrow> bool" where
  "sameFieldCount rows \<longleftrightarrow> list_all (\<lambda>row. length row = length (rows ! 0)) rows"

section \<open>A small catalog for concrete instances\<close>

definition svcOpenAI :: AIService where
  "svcOpenAI = \<lparr>Name = ''ChatGPT'', Category = ''LLM'', Domains = [''openai.com'']\<rparr>"

definition svcOpenAIAPI :: AIService where
  "svcOpenAIAPI = \<lparr>Name = ''OpenAI API'', Category = ''API'', Domains = [''API.OpenAI.com'']\<rparr>"

definition svcLocal :: AIService where
  "svcLocal = \<lparr>Name = ''Local LLM'', Category = ''LLM'', Domains = [''localhost'']\<rparr>"

definition svcCustom :: AIService where
  "svcCustom = \<lparr>Name = ''Sanctioned'', Category = ''Internal'', Domains = [''OpenAI.com'']\<rparr>"

definition exampleAnalyzer :: Analyzer where
  "exampleAnalyzer = \<lparr>domainMap = insertServices Map.empty [svcOpenAI, svcOpenAIAPI, svcLocal]\<rparr>"

definition feb29 :: Time where
  "feb29 = \<lparr>Year = 0, Month = 2, Day = 29, Hour = 8, Minute = 30, Second = 0,
            Nanosecond = 0, ZoneOffset = 0\<rparr>"

definition jun10 :: Time where
  "jun10 = \<lparr>Year = 0, Month = 6, Day = 10, Hour = 8, Minute = 30, Second = 0,
            Nanosecond = 0, ZoneOffset = 0\<rparr>"

definition jun10of2025 :: Time where
  "jun10of2025 = \<lparr>Year = 2025, Month = 6, Day = 10, Hour = 0, Minute = 0, Second = 0,
                  Nanosecond = 0, ZoneOffset = 0\<rparr>"

text \<open>
  A library environment for the instances below: on every string that an instance hands
  to it, it returns what the Go library returns; the clock stands in the year 2025.
\<close>

definition exampleLib :: GoLib where
  "exampleLib =
     \<lparr>timeParse = (\<lambda>layout s.
        if layout = ''Jan 2 15:04:05'' \<and> s = ''Feb 29 08:30:00''
        then Some feb29
        else if layout = ''Jan 2 15:04:05'' \<and> s = ''Jun 10 08:30:00''
        then Some jun10
        else if layout = RFC3339 \<and> s = ''2025-06-10T08:30:00Z''
        then Some \<lparr>Year = 2025, Month = 6, Day = 10, Hour = 8, Minute = 30, Second = 0,
                    Nanosecond = 0, ZoneOffset = 0\<rparr>
        else if layout = ''2006-01-02'' \<and> s = ''2025-06-10''
        then Some jun10of2025
        else None),
      parseUnixTime = (\<lambda>s.
        if s = ''1718000000.000''
        then Some \<lparr>Year = 2024, Month = 6, Day = 10, Hour = 6, Minute = 13, Second = 20,
                    Nanosecond = 0, ZoneOffset = 0\<rparr>
        else None),
      ParseInt = (\<lambda>s. if s = ''1500'' then 1500 else 0),
      urlHostname = (\<lambda>s.
        if s = ''https://api.openai.com/v1/chat/completions'' then Some ''api.openai.com''
        else None),
      nowYear = 2025\<rparr>"

definition squidLineOK :: string where
  "squidLineOK = ''1718000000.000 200 192.168.1.50 TCP_MISS/200 1500 GET https://api.openai.com/v1/chat/completions - DIRECT/api.openai.com text/html''"

definition squidLineTunnel :: "string \<Rightarrow> string" where
  "squidLineTunnel target =
     ''1718000000.000 200 192.168.1.50 TCP_TUNNEL/200 0 CONNECT '' @ target @ '' - HIER_DIRECT/1.2.3.4 -''"

text \<open>
  A CSV file of a header in mixed case and two data rows, the second without a domain;
  and one whose second data row has one field where the header has two.
\<close>

definition exampleCSV :: "string list list" where
  "exampleCSV =
     [[''Timestamp'', ''SRC_IP'', ''Domain '', ''bytes'', ''Status''],
      [''2025-06-10'', ''192.168.1.50'', ''api.openai.com'', ''1500'', ''200''],
      [''2025-06-10'', ''192.168.1.51'', '' '', ''0'', ''200'']]"

definition dnsmasqLine :: "string \<Rightarrow> string" where
  "dnsmasqLine stamp = stamp @ '' dnsmasq[1234]: query[A] api.openai.com from 192.168.1.50''"

definition raggedCSV :: "string list list" where
  "raggedCSV =
     [[''src_ip'', ''domain''],
      [''192.168.1.50'', ''api.openai.com''],
      [''192.168.1.51'']]"

section \<open>Strings: splitting and joining\<close>


lemma lower_char_dot: "lower_char c = CHR ''.'' \<longleftrightarrow> c = CHR ''.''"
  by (simp add: lower_char_def split: option.splits if_splits)

lemma lower_char_idem: "lower_char (lower_char c) = lower_char c"
  by (simp add: lower_char_def split: option.splits if_splits)

lemma ToLower_idem: "ToLower (ToLower s) = ToLower s"
  by (simp add: ToLower_def lower_char_idem)

lemma Split_not_Nil: "Split s \<noteq> []"
  by (induction s) (auto split: list.splits)

lemma Join_Cons: "ps \<noteq> [] \<Longrightarrow> Join (p # ps) = p @ ''.'' @ Join ps"
  by (cases ps) auto

lemma Join_Split: "Join (Split s) = s"
proof (induction s)
  case Nil show ?case by simp
next
  case (Cons c cs)
  show ?case
  proof (cases "c = CHR ''.''")
    case True
    then show ?thesis using Cons Split_not_Nil[of cs] by (simp add: Join_Cons)
  next
    case False
    obtain p ps where sp: "Split cs = p # ps" using Split_not_Nil[of cs] by (cases "Split cs") auto
    show ?thesis using False Cons sp by (cases ps) auto
  qed
qed

lemma Split_append_dot: "Split (p @ CHR ''.'' # s) = Split p @ Split s"
proof (induction p)
  case Nil show ?case by simp
next
  case (Cons c cs)
  obtain q qs where sp: "Split cs = q # qs" using Split_not_Nil[of cs] by (cases "Split cs") auto
  show ?case using Cons sp by simp
qed

lemma matchLoop_firstHit:
  "matchLoop m parts i = firstHit m (map (\<lambda>j. Join (drop j parts)) [i ..< length parts - 1])"
proof (induction m parts i rule: matchLoop.induct)
  case (1 m parts i)
  show ?case
  proof (cases "int i < int (length parts) - 1")
    case True
    then have lt: "i < length parts - 1" by linarith
    have up: "[i ..< length parts - 1] = i # [i + 1 ..< length parts - 1]"
      using lt by (simp add: upt_conv_Cons)
    show ?thesis
    proof (cases "m (Join (drop i parts))")
      case None
      then show ?thesis using True 1 up by (simp del: matchLoop.simps add: matchLoop.simps[of m parts i])
    next
      case (Some svc)
      then show ?thesis using True up by (simp del: matchLoop.simps add: matchLoop.simps[of m parts i])
    qed
  next
    case False
    then have "\<not> i < length parts - 1" by linarith
    then show ?thesis using False by simp
  qed
qed

lemma firstHit_None: "firstHit m cs = None \<longleftrightarrow> (\<forall>c \<in> set cs. m c = None)"
  by (induction cs) (auto split: option.splits)

lemma firstHit_Some:
  "firstHit m cs = Some svc \<Longrightarrow> \<exists>c \<in> set cs. m c = Some svc"
  by (induction cs) (auto split: option.splits)

lemma firstHit_append:
  "\<forall>c \<in> set xs. m c = None \<Longrightarrow> firstHit m (xs @ ys) = firstHit m ys"
  by (induction xs) auto

lemma matchDomain_unfold:
  "matchDomain a d =
     (case domainMap a (ToLower d) of
        Some svc \<Rightarrow> Some svc
      | None \<Rightarrow> firstHit (domainMap a) (suffixCandidates (ToLower d)))"
  by (simp add: matchDomain_def Let_def suffixCandidates_def matchLoop_firstHit
        del: matchLoop.simps split: option.splits)

lemma Join_drop_suffix:
  "0 < k \<Longrightarrow> k < length ps \<Longrightarrow> Join ps = Join (take k ps) @ CHR ''.'' # Join (drop k ps)"
proof (induction ps arbitrary: k)
  case Nil then show ?case by simp
next
  case (Cons p ps)
  show ?case
  proof (cases k)
    case 0 then show ?thesis using Cons by simp
  next
    case (Suc j)
    show ?thesis
    proof (cases j)
      case 0
      then show ?thesis using Suc Cons.prems by (simp add: Join_Cons)
    next
      case (Suc j')
      have "Join ps = Join (take j ps) @ CHR ''.'' # Join (drop j ps)"
        using Cons.IH[of j] Cons.prems \<open>k = Suc j\<close> Suc by simp
      moreover have "ps \<noteq> []" "take j ps \<noteq> []" using Cons.prems \<open>k = Suc j\<close> Suc by auto
      ultimately show ?thesis using \<open>k = Suc j\<close> by (simp add: Join_Cons)
    qed
  qed
qed

lemma no_dot_Split: "CHR ''.'' \<notin> set s \<Longrightarrow> Split s = [s]"
  by (induction s) auto

lemma Split_Join: "\<forall>p \<in> set ps. CHR ''.'' \<notin> set p \<Longrightarrow> ps \<noteq> [] \<Longrightarrow> Split (Join ps) = ps"
proof (induction ps rule: Join.induct)
  case 1 then show ?case by simp
next
  case (2 p) then show ?case by (simp add: no_dot_Split)
next
  case (3 p q ps)
  then have "Split (Join (q # ps)) = q # ps" by simp
  moreover have "Split p = [p]" using 3 by (simp add: no_dot_Split)
  ultimately show ?case using Split_append_dot[of p "Join (q # ps)"] by simp
qed

lemma Split_no_dot: "p \<in> set (Split s) \<Longrightarrow> CHR ''.'' \<notin> set p"
proof (induction s arbitrary: p)
  case Nil then show ?case by simp
next
  case (Cons c cs)
  obtain q qs where sp: "Split cs = q # qs" using Split_not_Nil[of cs] by (cases "Split cs") auto
  show ?case using Cons sp by (auto split: if_splits)
qed

lemma Split_Join_drop:
  "k < length (Split d) \<Longrightarrow> Split (Join (drop k (Split d))) = drop k (Split d)"
  by (rule Split_Join) (auto dest: in_set_dropD Split_no_dot)

lemma candidate_props:
  assumes "c \<in> set (suffixCandidates d)"
  shows "2 \<le> length (Split c)" and "length (Split c) < length (Split d)"
    and "\<exists>p. d = p @ CHR ''.'' # c"
proof -
  from assms obtain k where k: "1 \<le> k" "k < length (Split d) - 1" and c: "c = Join (drop k (Split d))"
    by (auto simp: suffixCandidates_def)
  have sc: "Split c = drop k (Split d)" using k c by (simp add: Split_Join_drop)
  show "2 \<le> length (Split c)" using sc k by simp
  show "length (Split c) < length (Split d)" using sc k by simp
  have "Join (Split d) = Join (take k (Split d)) @ CHR ''.'' # Join (drop k (Split d))"
    using k by (intro Join_drop_suffix) auto
  then show "\<exists>p. d = p @ CHR ''.'' # c" using c by (auto simp: Join_Split)
qed


section \<open>The catalog and the matcher\<close>

lemma insertDomains_apply:
  "insertDomains m svc ds k = (if k \<in> ToLower ` set ds then Some svc else m k)"
  by (induction ds arbitrary: m) auto

lemma insertServices_apply:
  "insertServices m svcs k =
     (case lastOwner svcs k of Some s \<Rightarrow> Some s | None \<Rightarrow> m k)"
  by (induction svcs arbitrary: m)
     (auto simp: insertDomains_apply listsDomain_def split: option.splits)

lemma lastOwner_Some: "lastOwner svcs k = Some s \<Longrightarrow> s \<in> set svcs \<and> listsDomain s k"
  by (induction svcs) (auto split: option.splits if_splits)

lemma lastOwner_None: "lastOwner svcs k = None \<Longrightarrow> s \<in> set svcs \<Longrightarrow> \<not> listsDomain s k"
  by (induction svcs) (auto split: option.splits if_splits)

lemma lastOwner_exists:
  assumes "svc \<in> set svcs" "listsDomain svc k"
  shows "\<exists>s. lastOwner svcs k = Some s \<and> s \<in> set svcs \<and> listsDomain s k"
  using assms lastOwner_None lastOwner_Some by (cases "lastOwner svcs k") blast+

lemma lowerKeys_insertServices: "lowerKeys m \<Longrightarrow> lowerKeys (insertServices m svcs)"
  unfolding lowerKeys_def
  by (auto simp: insertServices_apply listsDomain_def ToLower_idem domIff
      dest!: lastOwner_Some split: option.splits)

lemma ToLower_append: "ToLower (p @ s) = ToLower p @ ToLower s"
  by (simp add: ToLower_def)

lemma ToLower_dot_Cons: "ToLower (CHR ''.'' # s) = CHR ''.'' # ToLower s"
  by (simp add: ToLower_def lower_char_def)

lemma Join_append:
  "xs \<noteq> [] \<Longrightarrow> ys \<noteq> [] \<Longrightarrow> Join (xs @ ys) = Join xs @ CHR ''.'' # Join ys"
proof (induction xs)
  case Nil then show ?case by simp
next
  case (Cons x xs)
  show ?case
  proof (cases "xs = []")
    case True then show ?thesis using Cons.prems by (simp add: Join_Cons)
  next
    case False then show ?thesis using Cons by (simp add: Join_Cons)
  qed
qed

lemma subdomain_candidates:
  assumes cd: "2 \<le> length (Split cd)"
  shows "\<exists>rest. suffixCandidates (lp @ CHR ''.'' # cd) =
           map (\<lambda>i. Join (drop i (Split lp)) @ CHR ''.'' # cd) [1 ..< length (Split lp)] @ cd # rest"
proof -
  let ?n = "length (Split lp)"
  let ?d = "lp @ CHR ''.'' # cd"
  have sp: "Split ?d = Split lp @ Split cd" by (rule Split_append_dot)
  have n: "1 \<le> ?n" using Split_not_Nil[of lp] by (cases "Split lp") auto
  have cdne: "Split cd \<noteq> []" by (rule Split_not_Nil)
  define k where "k = length (Split cd) - 1"
  have k: "1 \<le> k" using cd by (simp add: k_def)
  have len: "length (Split ?d) - 1 = ?n + k" using cd by (simp add: sp k_def)
  have up: "[1 ..< length (Split ?d) - 1] = [1 ..< ?n] @ ?n # [Suc ?n ..< ?n + k]"
  proof -
    have "[1 ..< ?n + k] = [1 ..< ?n] @ [?n ..< ?n + k]"
      using n by (rule upt_add_eq_append)
    also have "[?n ..< ?n + k] = ?n # [Suc ?n ..< ?n + k]"
      using k by (simp add: upt_conv_Cons)
    finally show ?thesis by (simp only: len)
  qed
  have first: "map (\<lambda>i. Join (drop i (Split ?d))) [1 ..< ?n]
             = map (\<lambda>i. Join (drop i (Split lp)) @ CHR ''.'' # cd) [1 ..< ?n]"
  proof (rule map_cong[OF refl])
    fix i assume "i \<in> set [1 ..< ?n]"
    then have "i < ?n" by simp
    then have "drop i (Split lp) \<noteq> []" by simp
    then show "Join (drop i (Split ?d)) = Join (drop i (Split lp)) @ CHR ''.'' # cd"
      using \<open>i < ?n\<close> cdne by (simp add: sp Join_append Join_Split)
  qed
  have mid: "Join (drop ?n (Split ?d)) = cd" by (simp add: sp Join_Split)
  show ?thesis
    unfolding suffixCandidates_def up map_append list.map first mid by blast
qed

lemma Split_ToLower: "Split (ToLower s) = map ToLower (Split s)"
proof (induction s)
  case Nil show ?case by (simp add: ToLower_def)
next
  case (Cons c cs)
  obtain q qs where sp: "Split cs = q # qs" using Split_not_Nil[of cs] by (cases "Split cs") auto
  show ?case using Cons sp lower_char_dot[of c] by (auto simp: ToLower_def)
qed

lemma lowerKeys_empty: "lowerKeys Map.empty"
  by (simp add: lowerKeys_def)

text \<open>
  Claim C1. \<^verbatim>\<open>matchDomain\<close> lower-cases its input and looks it up in the domain index;
  a hit is returned at once, so a domain listed in the catalog is matched to a service
  that lists it. Otherwise the suffixes from label index 1 up to the second-to-last label
  are tried in this order and the first hit is returned: each candidate has at least two
  labels and is a proper suffix of the input after a dot, so neither the whole string nor
  the bare last label is tried again. When nothing hits, the result is not-found.
\<close>

theorem matchDomain_algorithm:
  "matchDomain a d =
     (case domainMap a (ToLower d) of
        Some svc \<Rightarrow> Some svc
      | None \<Rightarrow> firstHit (domainMap a) (suffixCandidates (ToLower d)))
   \<and> (\<forall>svc. domainMap a (ToLower d) = Some svc \<longrightarrow> matchDomain a d = Some svc)
   \<and> (\<forall>c \<in> set (suffixCandidates (ToLower d)).
         2 \<le> length (Split c) \<and> length (Split c) < length (Split (ToLower d))
         \<and> (\<exists>p. ToLower d = p @ ''.'' @ c))
   \<and> (domainMap a (ToLower d) = None
        \<and> (\<forall>c \<in> set (suffixCandidates (ToLower d)). domainMap a c = None)
       \<longrightarrow> matchDomain a d = None)
   \<and> (\<forall>svcs svc. New (Services svcs) = Inr a \<and> svc \<in> set svcs \<and> d \<in> set (Domains svc)
        \<longrightarrow> (\<exists>s \<in> set svcs. listsDomain s (ToLower d) \<and> matchDomain a d = Some s)
            \<and> ((\<forall>s \<in> set svcs. listsDomain s (ToLower d) \<longrightarrow> s = svc)
                 \<longrightarrow> matchDomain a d = Some svc))"
proof (intro conjI allI impI ballI)
  show u: "matchDomain a d =
     (case domainMap a (ToLower d) of
        Some svc \<Rightarrow> Some svc
      | None \<Rightarrow> firstHit (domainMap a) (suffixCandidates (ToLower d)))"
    by (rule matchDomain_unfold)
  show "matchDomain a d = Some svc" if "domainMap a (ToLower d) = Some svc" for svc
    using that by (simp add: u)
  show "matchDomain a d = None"
    if "domainMap a (ToLower d) = None
        \<and> (\<forall>c \<in> set (suffixCandidates (ToLower d)). domainMap a c = None)"
    using that by (simp add: u firstHit_None)
  fix c assume c: "c \<in> set (suffixCandidates (ToLower d))"
  show "2 \<le> length (Split c)" by (rule candidate_props(1)[OF c])
  show "length (Split c) < length (Split (ToLower d))" by (rule candidate_props(2)[OF c])
  show "\<exists>p. ToLower d = p @ ''.'' @ c" using candidate_props(3)[OF c] by simp
next
  fix svcs svc
  assume h: "New (Services svcs) = Inr a \<and> svc \<in> set svcs \<and> d \<in> set (Domains svc)"
  then have dm: "domainMap a = insertServices Map.empty svcs" by auto
  have "listsDomain svc (ToLower d)" using h by (auto simp: listsDomain_def)
  then obtain s where s: "lastOwner svcs (ToLower d) = Some s" "s \<in> set svcs"
      "listsDomain s (ToLower d)"
    using lastOwner_exists[of svc svcs "ToLower d"] h by blast
  have "domainMap a (ToLower d) = Some s" by (simp add: dm insertServices_apply s)
  then have "matchDomain a d = Some s" by (simp add: matchDomain_unfold)
  then have m: "matchDomain a d = Some s" .
  show "\<exists>s \<in> set svcs. listsDomain s (ToLower d) \<and> matchDomain a d = Some s"
    using s m by blast
  show "matchDomain a d = Some svc"
    if "\<forall>s \<in> set svcs. listsDomain s (ToLower d) \<longrightarrow> s = svc"
    using that s m by blast
qed

theorem matchDomain_algorithm_witness:
  "domainMap exampleAnalyzer (ToLower ''OpenAI.com'') = Some svcOpenAI
   \<and> matchDomain exampleAnalyzer ''OpenAI.com'' = Some svcOpenAI
   \<and> suffixCandidates (ToLower ''Foo.api.openai.com'') = [''api.openai.com'', ''openai.com'']
   \<and> matchDomain exampleAnalyzer ''Foo.api.openai.com'' = Some svcOpenAIAPI
   \<and> domainMap exampleAnalyzer (ToLower ''example.org'') = None
   \<and> suffixCandidates (ToLower ''example.org'') = []
   \<and> matchDomain exampleAnalyzer ''example.org'' = None
   \<and> New (Services [svcOpenAI, svcOpenAIAPI, svcLocal]) = Inr exampleAnalyzer
   \<and> svcOpenAIAPI \<in> set [svcOpenAI, svcOpenAIAPI, svcLocal]
   \<and> ''API.OpenAI.com'' \<in> set (Domains svcOpenAIAPI)
   \<and> matchDomain exampleAnalyzer ''API.OpenAI.com'' = Some svcOpenAIAPI"
proof -
  have hit: "domainMap exampleAnalyzer (ToLower ''OpenAI.com'') = Some svcOpenAI"
    by code_simp
  have cands: "suffixCandidates (ToLower ''Foo.api.openai.com'') = [''api.openai.com'', ''openai.com'']"
    by code_simp
  have miss: "domainMap exampleAnalyzer (ToLower ''example.org'') = None"
    by code_simp
  have nocands: "suffixCandidates (ToLower ''example.org'') = []"
    by code_simp
  have new: "New (Services [svcOpenAI, svcOpenAIAPI, svcLocal]) = Inr exampleAnalyzer"
    by (simp add: exampleAnalyzer_def)
  have mem: "svcOpenAIAPI \<in> set [svcOpenAI, svcOpenAIAPI, svcLocal]"
       "''API.OpenAI.com'' \<in> set (Domains svcOpenAIAPI)"
    by (simp_all add: svcOpenAIAPI_def)
  have r1: "matchDomain exampleAnalyzer ''OpenAI.com'' = Some svcOpenAI"
    using matchDomain_algorithm[of exampleAnalyzer "''OpenAI.com''"] hit by blast
  have e: "(case domainMap exampleAnalyzer (ToLower ''Foo.api.openai.com'') of
              Some svc \<Rightarrow> Some svc
            | None \<Rightarrow> firstHit (domainMap exampleAnalyzer)
                       (suffixCandidates (ToLower ''Foo.api.openai.com''))) = Some svcOpenAIAPI"
    by code_simp
  have r2: "matchDomain exampleAnalyzer ''Foo.api.openai.com'' = Some svcOpenAIAPI"
    by (rule trans[OF conjunct1[OF matchDomain_algorithm] e])
  have r3: "matchDomain exampleAnalyzer ''example.org'' = None"
    using matchDomain_algorithm[of exampleAnalyzer "''example.org''"] miss nocands by simp
  have "\<exists>s \<in> set [svcOpenAI, svcOpenAIAPI, svcLocal].
          listsDomain s (ToLower ''API.OpenAI.com'') \<and> matchDomain exampleAnalyzer ''API.OpenAI.com'' = Some s"
    using matchDomain_algorithm[of exampleAnalyzer "''API.OpenAI.com''"] new mem by meson
  then have r4: "matchDomain exampleAnalyzer ''API.OpenAI.com'' = Some svcOpenAIAPI"
    by (auto simp: listsDomain_def svcOpenAI_def svcOpenAIAPI_def svcLocal_def ToLower_def lower_char_def)
  show ?thesis using hit cands miss nocands new mem r1 r2 r3 r4 by blast
qed

text \<open>
  Claim C2, as amended. Let \<open>cd\<close> be a key of the domain index (keys are in lower case)
  that has at least two labels, and let \<open>d\<close> be \<open>cd\<close> with one or more labels prepended.
  Then \<open>d\<close> is matched, whatever the number of prepended labels, and it is matched to
  the service of \<open>cd\<close> whenever no longer label suffix of \<open>d\<close>, the string \<open>d\<close> itself
  included, is a key of the index.
\<close>

theorem subdomain_inheritance:
  assumes "lowerKeys (domainMap a)"
      and "domainMap a cd = Some svc"
      and "2 \<le> length (Split cd)"
  shows "matchDomain a cd = Some svc
       \<and> matchDomain a (p @ ''.'' @ cd) \<noteq> None
       \<and> ((\<forall>r \<in> set (labelSuffixes (ToLower p)). domainMap a (r @ ''.'' @ cd) = None)
            \<longrightarrow> matchDomain a (p @ ''.'' @ cd) = Some svc)"
proof -
  have low: "ToLower cd = cd" using assms(1,2) by (auto simp: lowerKeys_def)
  let ?lp = "ToLower p"
  have ld: "ToLower (p @ CHR ''.'' # cd) = ?lp @ CHR ''.'' # cd"
    using low by (simp add: ToLower_append ToLower_dot_Cons)
  obtain rest where cands: "suffixCandidates (?lp @ CHR ''.'' # cd) =
      map (\<lambda>i. Join (drop i (Split ?lp)) @ CHR ''.'' # cd) [1 ..< length (Split ?lp)] @ cd # rest"
    using subdomain_candidates[OF assms(3)] by blast
  have exact: "matchDomain a cd = Some svc"
    using assms(2) low by (simp add: matchDomain_unfold)
  have found: "matchDomain a (p @ ''.'' @ cd) \<noteq> None"
  proof (cases "domainMap a (?lp @ CHR ''.'' # cd)")
    case None
    have "firstHit (domainMap a) (suffixCandidates (?lp @ CHR ''.'' # cd)) \<noteq> None"
      using assms(2) by (simp add: firstHit_None cands)
    then show ?thesis using None by (simp add: matchDomain_unfold ld)
  next
    case (Some s)
    then show ?thesis by (simp add: matchDomain_unfold ld)
  qed
  have same: "matchDomain a (p @ ''.'' @ cd) = Some svc"
    if free: "\<forall>r \<in> set (labelSuffixes ?lp). domainMap a (r @ ''.'' @ cd) = None"
  proof -
    have "Split ?lp \<noteq> []" by (rule Split_not_Nil)
    then have "Join (drop 0 (Split ?lp)) \<in> set (labelSuffixes ?lp)"
      unfolding labelSuffixes_def by (intro imageI[of 0, THEN subst[OF set_map[symmetric], of "\<lambda>S. _ \<in> S"]]) simp
    then have top: "domainMap a (?lp @ CHR ''.'' # cd) = None"
      using free by (force simp: Join_Split)
    have "\<forall>c \<in> set (map (\<lambda>i. Join (drop i (Split ?lp)) @ CHR ''.'' # cd) [1 ..< length (Split ?lp)]).
            domainMap a c = None"
      using free by (auto simp: labelSuffixes_def)
    then have "firstHit (domainMap a) (suffixCandidates (?lp @ CHR ''.'' # cd)) = Some svc"
      unfolding cands by (simp add: firstHit_append assms(2))
    then show ?thesis using top by (simp add: matchDomain_unfold ld)
  qed
  show ?thesis using exact found same by blast
qed

theorem subdomain_inheritance_witness:
  "lowerKeys (domainMap exampleAnalyzer)
   \<and> domainMap exampleAnalyzer ''openai.com'' = Some svcOpenAI
   \<and> 2 \<le> length (Split ''openai.com'')
   \<and> map (\<lambda>r. domainMap exampleAnalyzer (r @ ''.'' @ ''openai.com''))
         (labelSuffixes (ToLower ''Chat.EU'')) = [None, None]
   \<and> matchDomain exampleAnalyzer ''openai.com'' = Some svcOpenAI
   \<and> matchDomain exampleAnalyzer (''Chat.EU'' @ ''.'' @ ''openai.com'') = Some svcOpenAI"
proof -
  have k: "lowerKeys (domainMap exampleAnalyzer)"
    unfolding exampleAnalyzer_def Analyzer.simps
    by (rule lowerKeys_insertServices[OF lowerKeys_empty])
  have o: "domainMap exampleAnalyzer ''openai.com'' = Some svcOpenAI"
    by code_simp
  have l: "2 \<le> length (Split ''openai.com'')" by simp
  have f: "\<forall>r \<in> set (labelSuffixes (ToLower ''Chat.EU'')).
         domainMap exampleAnalyzer (r @ ''.'' @ ''openai.com'') = None"
    by code_simp
  have g: "map (\<lambda>r. domainMap exampleAnalyzer (r @ ''.'' @ ''openai.com''))
         (labelSuffixes (ToLower ''Chat.EU'')) = [None, None]"
    by code_simp
  show ?thesis using subdomain_inheritance[OF k o l, of "''Chat.EU''"] k o l f g by blast
qed

text \<open>
  The claim C2 as stated fails: the key \<open>localhost\<close> has a single label and
  \<open>x.localhost\<close> is not matched; and \<open>x.api.openai.com\<close> is matched to the owner of
  \<open>api.openai.com\<close>, not to the owner of \<open>openai.com\<close>.
\<close>

theorem subdomain_inheritance_counterexample:
  "domainMap exampleAnalyzer ''localhost'' = Some svcLocal
   \<and> matchDomain exampleAnalyzer ''localhost'' = Some svcLocal
   \<and> matchDomain exampleAnalyzer (''x'' @ ''.'' @ ''localhost'') = None
   \<and> domainMap exampleAnalyzer ''openai.com'' = Some svcOpenAI
   \<and> matchDomain exampleAnalyzer ''openai.com'' = Some svcOpenAI
   \<and> matchDomain exampleAnalyzer (''x.api'' @ ''.'' @ ''openai.com'') = Some svcOpenAIAPI
   \<and> svcOpenAIAPI \<noteq> svcOpenAI"
  by code_simp

text \<open>
  Claim C4. Merging a custom catalog inserts every lower-cased domain of the custom
  services into the index and overwrites the previous owner; afterwards a query for such a
  domain, in any letter case, returns a custom service that lists it (the custom service
  itself when no other custom service lists the domain), and keys that no custom service
  lists keep their owner.
\<close>

theorem custom_overrides_base:
  assumes "LoadCustomDomains a (Services custom) = Inr a'"
      and "svc \<in> set custom"
      and "listsDomain svc (ToLower q)"
  shows "(\<exists>s \<in> set custom. listsDomain s (ToLower q)
            \<and> domainMap a' (ToLower q) = Some s \<and> matchDomain a' q = Some s)
       \<and> ((\<forall>s \<in> set custom. listsDomain s (ToLower q) \<longrightarrow> s = svc) \<longrightarrow> matchDomain a' q = Some svc)
       \<and> (\<forall>s \<in> set custom. \<forall>d \<in> set (Domains s). ToLower d \<in> dom (domainMap a'))
       \<and> (\<forall>k. (\<forall>s \<in> set custom. \<not> listsDomain s k) \<longrightarrow> domainMap a' k = domainMap a k)"
proof -
  have dm: "domainMap a' = insertServices (domainMap a) custom" using assms(1) by auto
  obtain s where s: "lastOwner custom (ToLower q) = Some s" "s \<in> set custom"
      "listsDomain s (ToLower q)"
    using lastOwner_exists[OF assms(2,3)] by blast
  have idx: "domainMap a' (ToLower q) = Some s" by (simp add: dm insertServices_apply s)
  then have m: "matchDomain a' q = Some s" by (simp add: matchDomain_unfold)
  have p1: "\<exists>s \<in> set custom. listsDomain s (ToLower q)
            \<and> domainMap a' (ToLower q) = Some s \<and> matchDomain a' q = Some s"
    using s idx m by blast
  have p2: "(\<forall>s \<in> set custom. listsDomain s (ToLower q) \<longrightarrow> s = svc) \<longrightarrow> matchDomain a' q = Some svc"
    using s m by blast
  have p3: "\<forall>s \<in> set custom. \<forall>d \<in> set (Domains s). ToLower d \<in> dom (domainMap a')"
  proof (intro ballI)
    fix t d assume t: "t \<in> set custom" "d \<in> set (Domains t)"
    then have "listsDomain t (ToLower d)" by (auto simp: listsDomain_def)
    then obtain u where "lastOwner custom (ToLower d) = Some u"
      using lastOwner_exists[OF t(1)] by blast
    then show "ToLower d \<in> dom (domainMap a')" by (simp add: dm insertServices_apply domIff)
  qed
  have p4: "\<forall>k. (\<forall>s \<in> set custom. \<not> listsDomain s k) \<longrightarrow> domainMap a' k = domainMap a k"
  proof (intro allI impI)
    fix k assume n: "\<forall>s \<in> set custom. \<not> listsDomain s k"
    have "lastOwner custom k = None"
      using n lastOwner_Some[of custom k] by (cases "lastOwner custom k") auto
    then show "domainMap a' k = domainMap a k" by (simp add: dm insertServices_apply)
  qed
  show ?thesis using p1 p2 p3 p4 by blast
qed

theorem custom_overrides_base_witness:
  "matchDomain exampleAnalyzer ''openai.com'' = Some svcOpenAI
   \<and> (\<exists>a'. LoadCustomDomains exampleAnalyzer (Services [svcCustom]) = Inr a'
         \<and> matchDomain a' ''openai.com'' = Some svcCustom
         \<and> domainMap a' ''api.openai.com'' = Some svcOpenAIAPI)
   \<and> Name svcCustom = ''Sanctioned'' \<and> AIService.Category svcCustom = ''Internal''"
proof -
  define a' where "a' = exampleAnalyzer\<lparr>domainMap := insertServices (domainMap exampleAnalyzer) [svcCustom]\<rparr>"
  have l: "LoadCustomDomains exampleAnalyzer (Services [svcCustom]) = Inr a'"
    by (simp add: a'_def)
  have i: "svcCustom \<in> set [svcCustom]" by simp
  have d: "listsDomain svcCustom (ToLower ''openai.com'')"
    by code_simp
  have u: "\<forall>s \<in> set [svcCustom]. listsDomain s (ToLower ''openai.com'') \<longrightarrow> s = svcCustom" by simp
  have n: "\<forall>s \<in> set [svcCustom]. \<not> listsDomain s ''api.openai.com''"
    by code_simp
  have "matchDomain a' ''openai.com'' = Some svcCustom"
    using custom_overrides_base[OF l i d] u by blast
  moreover have "domainMap a' ''api.openai.com'' = domainMap exampleAnalyzer ''api.openai.com''"
    using custom_overrides_base[OF l i d] n by blast
  moreover have "domainMap exampleAnalyzer ''api.openai.com'' = Some svcOpenAIAPI"
    by code_simp
  moreover have "matchDomain exampleAnalyzer ''openai.com'' = Some svcOpenAI"
    by code_simp
  ultimately show ?thesis using l by (simp add: svcCustom_def)
qed

section \<open>The aggregator\<close>

lemma increment_keys: "fst ` set (increment m k) = insert k (fst ` set m)"
  by (simp add: increment_def dom_update)

lemma increment_distinct: "distinct (map fst m) \<Longrightarrow> distinct (map fst (increment m k))"
  by (simp add: increment_def distinct_update)

lemma total_update:
  "distinct (map fst m) \<Longrightarrow>
   total (AList.update k v m) = total m - (case map_of m k of None \<Rightarrow> 0 | Some n \<Rightarrow> n) + v"
proof (induction m)
  case Nil show ?case by (simp add: total_def)
next
  case (Cons p m)
  obtain k' n where p: "p = (k', n)" by (cases p)
  show ?case
  proof (cases "k' = k")
    case True then show ?thesis using p by (simp add: total_def)
  next
    case False
    have le: "(case map_of m k of None \<Rightarrow> 0 | Some n \<Rightarrow> n) \<le> total m"
      unfolding total_def
      by (cases "map_of m k")
         (auto dest!: map_of_SomeD intro: member_le_sum_list simp: rev_image_eqI)
    show ?thesis using False p Cons le by (simp add: total_def)
  qed
qed

lemma total_increment: "distinct (map fst m) \<Longrightarrow> total (increment m k) = Suc (total m)"
proof -
  assume d: "distinct (map fst m)"
  have le: "(case map_of m k of None \<Rightarrow> 0 | Some n \<Rightarrow> n) \<le> total m"
    unfolding total_def
    by (cases "map_of m k")
       (auto dest!: map_of_SomeD intro: member_le_sum_list simp: rev_image_eqI)
  show ?thesis using le by (simp add: increment_def total_update[OF d])
qed

lemma analyzeLoop_consistent:
  "consistent s \<Longrightarrow> consistent (analyzeLoop a s entries)"
proof (induction entries arbitrary: s)
  case Nil then show ?case by simp
next
  case (Cons e entries)
  show ?case
  proof (cases "matchDomain a (LogEntry.Domain e)")
    case None then show ?thesis using Cons by simp
  next
    case (Some svc)
    have "consistent (s\<lparr>Findings := Findings s @ [makeFinding e svc],
                     ByUser := increment (ByUser s) (LogEntry.SourceIP e),
                     ByService := increment (ByService s) (Name svc)\<rparr>)"
      using Cons.prems
      by (simp add: consistent_def increment_keys increment_distinct total_increment makeFinding_def)
    then show ?thesis using Some Cons.IH by simp
  qed
qed

lemma analyzeLoop_findings:
  "Findings (analyzeLoop a s entries) = Findings s @ map (findingOf a) (filter (matched a) entries)"
  by (induction entries arbitrary: s) (auto simp: matched_def findingOf_def split: option.splits)

lemma analyzeLoop_scanned:
  "TotalLogsScanned (analyzeLoop a s entries) = TotalLogsScanned s"
  by (induction entries arbitrary: s) (auto split: option.splits)

lemma length_card_keys: "distinct (map fst m) \<Longrightarrow> length m = card (fst ` set m)"
  by (metis distinct_card length_map set_map)

lemma findingOf_SourceIP: "Finding.SourceIP (findingOf a e) = LogEntry.SourceIP e"
  by (simp add: findingOf_def makeFinding_def)

text \<open>
  Claim C3. For a slice of \<open>N\<close> entries of which \<open>K\<close> are matched by the catalog,
  \<^verbatim>\<open>Analyze\<close> reports \<open>N\<close> scanned entries and \<open>K\<close> findings, the findings are those of
  the matched entries in input order, and the numbers of unique users and services are
  the numbers of distinct source addresses and of distinct service names among the findings.
\<close>

theorem Analyze_counts:
  "TotalLogsScanned (Analyze a entries) = length entries
   \<and> Findings (Analyze a entries) = map (findingOf a) (filter (matched a) entries)
   \<and> TotalFindings (Analyze a entries) = length (filter (matched a) entries)
   \<and> UniqueUsers (Analyze a entries) = card (Finding.SourceIP ` set (Findings (Analyze a entries)))
   \<and> UniqueUsers (Analyze a entries) = card (LogEntry.SourceIP ` set (filter (matched a) entries))
   \<and> UniqueServices (Analyze a entries) = card (ServiceName ` set (Findings (Analyze a entries)))"
proof -
  define s0 :: Summary where "s0 = \<lparr>TotalLogsScanned = length entries, TotalFindings = 0, UniqueUsers = 0,
             UniqueServices = 0, Findings = [], ByUser = [], ByService = []\<rparr>"
  define s where "s = analyzeLoop a s0 entries"
  have c0: "consistent s0" by (simp add: s0_def consistent_def total_def)
  have c: "consistent s" unfolding s_def by (rule analyzeLoop_consistent[OF c0])
  have f: "Findings s = map (findingOf a) (filter (matched a) entries)"
    by (simp add: s_def analyzeLoop_findings s0_def)
  have n: "TotalLogsScanned s = length entries"
    by (simp add: s_def analyzeLoop_scanned s0_def)
  have A: "Analyze a entries = s\<lparr>TotalFindings := length (Findings s),
                 UniqueUsers := length (ByUser s),
                 UniqueServices := length (ByService s)\<rparr>"
    by (simp add: Analyze_def Let_def s_def s0_def)
  have u: "length (ByUser s) = card (Finding.SourceIP ` set (Findings s))"
    using c by (simp add: consistent_def length_card_keys)
  have v: "length (ByService s) = card (ServiceName ` set (Findings s))"
    using c by (simp add: consistent_def length_card_keys)
  have w: "Finding.SourceIP ` set (Findings s) = LogEntry.SourceIP ` set (filter (matched a) entries)"
    by (simp add: f image_image findingOf_SourceIP del: set_filter)
  show ?thesis
    unfolding A using f n u v w by simp
qed

text \<open>
  Claim C10. The summary returned by \<^verbatim>\<open>Analyze\<close> is consistent: the number of findings
  is the length of the findings list, the counts of either counter map sum to it, the
  numbers of unique users and services are the numbers of keys of the counter maps, and
  there are at most as many findings as scanned entries.
\<close>

theorem Analyze_consistent:
  "TotalFindings (Analyze a entries) = length (Findings (Analyze a entries))
   \<and> total (ByUser (Analyze a entries)) = TotalFindings (Analyze a entries)
   \<and> total (ByService (Analyze a entries)) = TotalFindings (Analyze a entries)
   \<and> distinct (map fst (ByUser (Analyze a entries)))
   \<and> distinct (map fst (ByService (Analyze a entries)))
   \<and> UniqueUsers (Analyze a entries) = card (dom (map_of (ByUser (Analyze a entries))))
   \<and> UniqueServices (Analyze a entries) = card (dom (map_of (ByService (Analyze a entries))))
   \<and> TotalFindings (Analyze a entries) \<le> TotalLogsScanned (Analyze a entries)"
proof -
  define s0 :: Summary where "s0 = \<lparr>TotalLogsScanned = length entries, TotalFindings = 0, UniqueUsers = 0,
             UniqueServices = 0, Findings = [], ByUser = [], ByService = []\<rparr>"
  define s where "s = analyzeLoop a s0 entries"
  have c0: "consistent s0" by (simp add: s0_def consistent_def total_def)
  have c: "consistent s" unfolding s_def by (rule analyzeLoop_consistent[OF c0])
  have f: "Findings s = map (findingOf a) (filter (matched a) entries)"
    by (simp add: s_def analyzeLoop_findings s0_def)
  have n: "TotalLogsScanned s = length entries"
    by (simp add: s_def analyzeLoop_scanned s0_def)
  have A: "Analyze a entries = s\<lparr>TotalFindings := length (Findings s),
                 UniqueUsers := length (ByUser s),
                 UniqueServices := length (ByService s)\<rparr>"
    by (simp add: Analyze_def Let_def s_def s0_def)
  have le: "length (Findings s) \<le> length entries" by (simp add: f)
  have u: "length (ByUser s) = card (dom (map_of (ByUser s)))"
    using c by (simp add: consistent_def length_card_keys dom_map_of_conv_image_fst)
  have v: "length (ByService s) = card (dom (map_of (ByService s)))"
    using c by (simp add: consistent_def length_card_keys dom_map_of_conv_image_fst)
  show ?thesis
    unfolding A using c n le u v by (simp add: consistent_def)
qed

section \<open>The parsers\<close>

lemma squidLoop_eq: "squidLoop lib acc ls = acc @ linesParsed (parseSquidLine lib) ls"
  by (induction ls arbitrary: acc)
     (auto simp: linesParsed_def List.map_filter_simps split: sum.splits)

lemma dnsLoop_eq: "dnsLoop lib acc ls = acc @ linesParsed (parseDNSLine lib) ls"
  by (induction ls arbitrary: acc)
     (auto simp: linesParsed_def List.map_filter_simps split: sum.splits)

lemma csvLoop_eq: "csvLoop mk acc rows = acc @ filter hasDomain (map mk rows)"
  by (induction rows arbitrary: acc) (auto simp: hasDomain_def Let_def)

lemma ReadAll_eq: "ReadAll rows = (if sameFieldCount rows then Some rows else None)"
  by (cases rows) (simp_all add: ReadAll_def sameFieldCount_def)

lemma csvParse_Rows:
  "csvParse lib (Rows rows) =
     (if \<not> sameFieldCount rows then Inl ParsingCSV
      else if length rows < 2 then Inl NoDataRows
      else if dstColumn (rows ! 0) = -1 then Inl MissingDestinationColumn
      else Inr (filter hasDomain (map (csvEntry lib (rows ! 0)) (drop 1 rows))))"
  by (simp add: ReadAll_eq Let_def csvLoop_eq csvEntry_def del: findCol.simps)

lemma findCol_none: "findCol m names = -1 \<longleftrightarrow> (\<forall>n \<in> set names. m n = None)"
  by (induction names) (auto split: option.splits)

lemma mapColumnsFrom_dom:
  "dom (mapColumnsFrom i m header) = dom m \<union> (\<lambda>c. ToLower (TrimSpace c)) ` set header"
  by (induction header arbitrary: i m) auto

lemma mapColumns_dom: "dom (mapColumns header) = (\<lambda>c. ToLower (TrimSpace c)) ` set header"
  by (simp add: mapColumns_def mapColumnsFrom_dom)

lemma dstColumn_none:
  "dstColumn header = -1 \<longleftrightarrow>
     (\<forall>n \<in> set [''destination'', ''dst'', ''domain'', ''host'', ''url'', ''dest'', ''dst_host''].
        n \<notin> (\<lambda>c. ToLower (TrimSpace c)) ` set header)"
  unfolding dstColumn_def findCol_none mapColumns_dom[symmetric] by (simp add: domIff)

lemma isLeap_0: "isLeap 0"
  by (simp add: isLeap_def)

lemma AddDate_yearless:
  assumes "parsedYearless t"
  shows "AddDate t y =
           (if Month t = 2 \<and> Day t = 29 \<and> \<not> isLeap y
            then t\<lparr>Year := y, Month := 3, Day := 1\<rparr>
            else t\<lparr>Year := y\<rparr>)"
proof -
  have y0: "Year t = 0" and m: "1 \<le> Month t" "Month t \<le> 12"
    and d: "1 \<le> Day t" "Day t \<le> daysIn (Month t) 0"
    using assms by (auto simp: parsedYearless_def)
  show ?thesis
  proof (cases "Month t = 2")
    case True
    then have "Day t \<le> 29" using d by (simp add: daysIn_def isLeap_0)
    then show ?thesis using True d y0 by (auto simp: AddDate_def Let_def daysIn_def)
  next
    case False
    then have "daysIn (Month t) y = daysIn (Month t) 0" by (simp add: daysIn_def)
    then show ?thesis using False d y0 by (simp add: AddDate_def Let_def)
  qed
qed

lemma parseDnsmasq_Timestamp:
  assumes "parseDnsmasq lib line = Inr entry"
  shows "LogEntry.Timestamp entry =
           (case timeParse lib ''Jan 2 15:04:05'' (timestampText line (Index line ''query['')) of
              None \<Rightarrow> zeroTime
            | Some t \<Rightarrow> AddDate t (nowYear lib))"
  using assms by (auto simp: parseDnsmasq_def Let_def split: if_splits)

text \<open>
  Claim C5, as amended. The Squid and the DNS parser fail only when the file cannot be
  opened or the scanner reports a read error; on a file that is read to its end they
  return the entries of the lines that parse, in order, and a malformed line is passed
  over. The CSV parser fails when the file cannot be opened or read and, besides, at the
  level of the file when it has fewer than two rows or a header without destination
  column, that is, when none of the seven destination names is the trimmed, lower-cased
  text of a header cell. For a file whose rows all have the number of fields of the
  header these are its only failures: no such row makes it fail, and it returns the
  entries of the data rows that have a domain, in order.
\<close>

theorem parse_failures:
  "(squidParse lib f = Inl e \<longleftrightarrow>
      (f = OpenError \<and> e = OpeningLog) \<or> ((\<exists>ls. f = TextFile ls True) \<and> e = ReadingLog))
   \<and> squidParse lib (TextFile ls False) = Inr (linesParsed (parseSquidLine lib) ls)
   \<and> (dnsParse lib f = Inl e \<longleftrightarrow>
      (f = OpenError \<and> e = OpeningLog) \<or> ((\<exists>ls. f = TextFile ls True) \<and> e = ReadingLog))
   \<and> dnsParse lib (TextFile ls False) = Inr (linesParsed (parseDNSLine lib) ls)
   \<and> csvParse lib CSVOpenError = Inl OpeningLog
   \<and> csvParse lib CSVReadError = Inl ParsingCSV
   \<and> (sameFieldCount rows \<longrightarrow>
        (csvParse lib (Rows rows) = Inl e \<longleftrightarrow>
           (length rows < 2 \<and> e = NoDataRows)
           \<or> (2 \<le> length rows \<and> dstColumn (rows ! 0) = -1 \<and> e = MissingDestinationColumn)))
   \<and> (sameFieldCount rows \<and> 2 \<le> length rows \<and> dstColumn (rows ! 0) \<noteq> -1 \<longrightarrow>
        csvParse lib (Rows rows)
          = Inr (filter hasDomain (map (csvEntry lib (rows ! 0)) (drop 1 rows))))
   \<and> (dstColumn header = -1 \<longleftrightarrow>
        (\<forall>n \<in> set [''destination'', ''dst'', ''domain'', ''host'', ''url'', ''dest'', ''dst_host''].
           n \<notin> (\<lambda>c. ToLower (TrimSpace c)) ` set header))"
proof (intro conjI)
  show "squidParse lib f = Inl e \<longleftrightarrow>
      (f = OpenError \<and> e = OpeningLog) \<or> ((\<exists>ls. f = TextFile ls True) \<and> e = ReadingLog)"
    by (cases f) (auto simp: Let_def)
  show "dnsParse lib f = Inl e \<longleftrightarrow>
      (f = OpenError \<and> e = OpeningLog) \<or> ((\<exists>ls. f = TextFile ls True) \<and> e = ReadingLog)"
    by (cases f) (auto simp: Let_def)
  show "squidParse lib (TextFile ls False) = Inr (linesParsed (parseSquidLine lib) ls)"
    by (simp add: squidLoop_eq)
  show "dnsParse lib (TextFile ls False) = Inr (linesParsed (parseDNSLine lib) ls)"
    by (simp add: dnsLoop_eq)
  show "csvParse lib CSVOpenError = Inl OpeningLog" by simp
  show "csvParse lib CSVReadError = Inl ParsingCSV" by simp
  show "sameFieldCount rows \<longrightarrow>
        (csvParse lib (Rows rows) = Inl e \<longleftrightarrow>
           (length rows < 2 \<and> e = NoDataRows)
           \<or> (2 \<le> length rows \<and> dstColumn (rows ! 0) = -1 \<and> e = MissingDestinationColumn))"
    unfolding csvParse_Rows by auto
  show "sameFieldCount rows \<and> 2 \<le> length rows \<and> dstColumn (rows ! 0) \<noteq> -1 \<longrightarrow>
        csvParse lib (Rows rows)
          = Inr (filter hasDomain (map (csvEntry lib (rows ! 0)) (drop 1 rows)))"
    unfolding csvParse_Rows by simp
  show "dstColumn header = -1 \<longleftrightarrow>
        (\<forall>n \<in> set [''destination'', ''dst'', ''domain'', ''host'', ''url'', ''dest'', ''dst_host''].
           n \<notin> (\<lambda>c. ToLower (TrimSpace c)) ` set header)"
    by (rule dstColumn_none)
qed

theorem parse_failures_witness:
  "squidParse exampleLib (TextFile [squidLineOK, ''# comment'', ''not a squid line''] False)
     = Inr [\<lparr>LogEntry.Timestamp = \<lparr>Year = 2024, Month = 6, Day = 10, Hour = 6, Minute = 13,
                                     Second = 20, Nanosecond = 0, ZoneOffset = 0\<rparr>,
             LogEntry.SourceIP = ''192.168.1.50'', LogEntry.Domain = ''api.openai.com'',
             LogEntry.URL = ''https://api.openai.com/v1/chat/completions'',
             LogEntry.Method = ''GET'', LogEntry.StatusCode = ''200'',
             LogEntry.BytesSent = 1500, RawLine = squidLineOK\<rparr>]
   \<and> dnsParse exampleLib (TextFile [''garbage'', dnsmasqLine ''Jun 10 08:30:00''] True)
     = Inl ReadingLog
   \<and> sameFieldCount exampleCSV \<and> 2 \<le> length exampleCSV \<and> dstColumn (exampleCSV ! 0) \<noteq> -1
   \<and> map (csvEntry exampleLib (exampleCSV ! 0)) (drop 1 exampleCSV)
     = [emptyEntry\<lparr>LogEntry.Timestamp := jun10of2025,
                       LogEntry.SourceIP := ''192.168.1.50'',
                       LogEntry.Domain := ''api.openai.com'',
                       LogEntry.StatusCode := ''200'', LogEntry.BytesSent := 1500,
                       RawLine := ''2025-06-10,192.168.1.50,api.openai.com,1500,200''\<rparr>,
        emptyEntry\<lparr>LogEntry.Timestamp := jun10of2025,
                       LogEntry.SourceIP := ''192.168.1.51'', LogEntry.StatusCode := ''200'',
                       RawLine := ''2025-06-10,192.168.1.51, ,0,200''\<rparr>]
   \<and> csvParse exampleLib (Rows exampleCSV)
     = Inr [emptyEntry\<lparr>LogEntry.Timestamp := jun10of2025,
                       LogEntry.SourceIP := ''192.168.1.50'',
                       LogEntry.Domain := ''api.openai.com'',
                       LogEntry.StatusCode := ''200'', LogEntry.BytesSent := 1500,
                       RawLine := ''2025-06-10,192.168.1.50,api.openai.com,1500,200''\<rparr>]
   \<and> sameFieldCount [[''Time'', ''Client''], [''2025-06-10'', ''192.168.1.50'']]
   \<and> dstColumn [''Time'', ''Client''] = -1
   \<and> csvParse exampleLib (Rows [[''Time'', ''Client''], [''2025-06-10'', ''192.168.1.50'']])
       = Inl MissingDestinationColumn"
proof -
  note t = parse_failures[of exampleLib "TextFile [''garbage'', dnsmasqLine ''Jun 10 08:30:00''] True"
      ReadingLog "[squidLineOK, ''# comment'', ''not a squid line'']" exampleCSV]
  have sq: "linesParsed (parseSquidLine exampleLib) [squidLineOK, ''# comment'', ''not a squid line'']
     = [\<lparr>LogEntry.Timestamp = \<lparr>Year = 2024, Month = 6, Day = 10, Hour = 6, Minute = 13,
                                     Second = 20, Nanosecond = 0, ZoneOffset = 0\<rparr>,
             LogEntry.SourceIP = ''192.168.1.50'', LogEntry.Domain = ''api.openai.com'',
             LogEntry.URL = ''https://api.openai.com/v1/chat/completions'',
             LogEntry.Method = ''GET'', LogEntry.StatusCode = ''200'',
             LogEntry.BytesSent = 1500, RawLine = squidLineOK\<rparr>]"
    by code_simp
  have r1: "squidParse exampleLib (TextFile [squidLineOK, ''# comment'', ''not a squid line''] False)
     = Inr (linesParsed (parseSquidLine exampleLib) [squidLineOK, ''# comment'', ''not a squid line''])"
    using t by blast
  have r2: "dnsParse exampleLib (TextFile [''garbage'', dnsmasqLine ''Jun 10 08:30:00''] True)
     = Inl ReadingLog"
    using t by blast
  have h: "sameFieldCount exampleCSV" "2 \<le> length exampleCSV" "dstColumn (exampleCSV ! 0) \<noteq> -1"
    by code_simp+
  have rows: "map (csvEntry exampleLib (exampleCSV ! 0)) (drop 1 exampleCSV)
     = [emptyEntry\<lparr>LogEntry.Timestamp := jun10of2025,
                       LogEntry.SourceIP := ''192.168.1.50'',
                       LogEntry.Domain := ''api.openai.com'',
                       LogEntry.StatusCode := ''200'', LogEntry.BytesSent := 1500,
                       RawLine := ''2025-06-10,192.168.1.50,api.openai.com,1500,200''\<rparr>,
        emptyEntry\<lparr>LogEntry.Timestamp := jun10of2025,
                       LogEntry.SourceIP := ''192.168.1.51'', LogEntry.StatusCode := ''200'',
                       RawLine := ''2025-06-10,192.168.1.51, ,0,200''\<rparr>]"
    by code_simp
  have cs: "filter hasDomain (map (csvEntry exampleLib (exampleCSV ! 0)) (drop 1 exampleCSV))
     = [emptyEntry\<lparr>LogEntry.Timestamp := jun10of2025,
                       LogEntry.SourceIP := ''192.168.1.50'',
                       LogEntry.Domain := ''api.openai.com'',
                       LogEntry.StatusCode := ''200'', LogEntry.BytesSent := 1500,
                       RawLine := ''2025-06-10,192.168.1.50,api.openai.com,1500,200''\<rparr>]"
    by code_simp
  have r3: "csvParse exampleLib (Rows exampleCSV)
     = Inr (filter hasDomain (map (csvEntry exampleLib (exampleCSV ! 0)) (drop 1 exampleCSV)))"
    using t h by blast
  have g: "sameFieldCount [[''Time'', ''Client''], [''2025-06-10'', ''192.168.1.50'']]"
    by code_simp
  have none: "\<forall>n \<in> set [''destination'', ''dst'', ''domain'', ''host'', ''url'', ''dest'', ''dst_host''].
           n \<notin> (\<lambda>c. ToLower (TrimSpace c)) ` set [''Time'', ''Client'']"
    by code_simp
  have d: "dstColumn [''Time'', ''Client''] = -1"
    using parse_failures[of exampleLib _ _ _ _ "[''Time'', ''Client'']"] none by blast
  have r4: "csvParse exampleLib (Rows [[''Time'', ''Client''], [''2025-06-10'', ''192.168.1.50'']])
       = Inl MissingDestinationColumn"
    using parse_failures[of exampleLib _ MissingDestinationColumn _
        "[[''Time'', ''Client''], [''2025-06-10'', ''192.168.1.50'']]"] g d
    by simp
  have r1': "squidParse exampleLib (TextFile [squidLineOK, ''# comment'', ''not a squid line''] False)
     = Inr [\<lparr>LogEntry.Timestamp = \<lparr>Year = 2024, Month = 6, Day = 10, Hour = 6, Minute = 13,
                                     Second = 20, Nanosecond = 0, ZoneOffset = 0\<rparr>,
             LogEntry.SourceIP = ''192.168.1.50'', LogEntry.Domain = ''api.openai.com'',
             LogEntry.URL = ''https://api.openai.com/v1/chat/completions'',
             LogEntry.Method = ''GET'', LogEntry.StatusCode = ''200'',
             LogEntry.BytesSent = 1500, RawLine = squidLineOK\<rparr>]"
    using r1 by (simp only: sq)
  have r3': "csvParse exampleLib (Rows exampleCSV)
     = Inr [emptyEntry\<lparr>LogEntry.Timestamp := jun10of2025,
                       LogEntry.SourceIP := ''192.168.1.50'',
                       LogEntry.Domain := ''api.openai.com'',
                       LogEntry.StatusCode := ''200'', LogEntry.BytesSent := 1500,
                       RawLine := ''2025-06-10,192.168.1.50,api.openai.com,1500,200''\<rparr>]"
    using r3 by (simp only: cs)
  show ?thesis using r1' r2 h rows r3' g d r4 by - (intro conjI; assumption)
qed

text \<open>
  The claim C5 as stated fails for the CSV parser: a file that is opened and read, but
  consists of its header row only, or has no destination column, makes \<^verbatim>\<open>Parse\<close> fail.
\<close>

theorem parse_failures_counterexample:
  "csvParse exampleLib (Rows [[''timestamp'', ''src_ip'', ''domain'']]) = Inl NoDataRows
   \<and> csvParse exampleLib (Rows [[''timestamp'', ''src_ip''], [''2025-06-10'', ''192.168.1.50'']])
       = Inl MissingDestinationColumn"
  by code_simp

text \<open>
  Claim C6 does not hold of the code. A file with a destination column and two data rows
  makes \<^verbatim>\<open>Parse\<close> fail when one data row has another number of fields than the header:
  the CSV reader rejects the file before the loop over the rows is reached. The loop
  itself provides for such a row, by its tests \<^verbatim>\<open>col < len(row)\<close>: run on the same rows
  it passes over the short row, which has no domain, and returns the entry of the other.
\<close>

theorem ragged_row_fails_file:
  "csvParse lib (Rows raggedCSV) = Inl ParsingCSV
   \<and> length raggedCSV = 3
   \<and> dstColumn (raggedCSV ! 0) = 1
   \<and> csvLoop (csvEntry lib (raggedCSV ! 0)) [] (drop 1 raggedCSV)
       = [emptyEntry\<lparr>LogEntry.SourceIP := ''192.168.1.50'',
                        LogEntry.Domain := ''api.openai.com'',
                        RawLine := ''192.168.1.50,api.openai.com''\<rparr>]"
  by code_simp

text \<open>
  Claim C7 does not hold of the code. Only the DNS parser removes the trailing dot of a
  fully qualified name; the CSV parser and \<^verbatim>\<open>extractDomain\<close>, hence the Squid parser,
  lower-case the domain and keep the dot, and the matcher then misses the service.
\<close>

theorem trailing_dot_kept:
  "csvParse lib (Rows [[''src_ip'', ''domain''], [''192.168.1.50'', ''API.OpenAI.com.'']])
     = Inr [emptyEntry\<lparr>LogEntry.SourceIP := ''192.168.1.50'',
                       LogEntry.Domain := ''api.openai.com.'',
                       RawLine := ''192.168.1.50,API.OpenAI.com.''\<rparr>]
   \<and> squidParse \<lparr>timeParse = tp, parseUnixTime = \<lambda>s. Some ts, ParseInt = pint,
                  urlHostname = host, nowYear = y\<rparr>
        (TextFile [squidLineTunnel ''API.OpenAI.com.:443''] False)
     = Inr [\<lparr>LogEntry.Timestamp = ts, LogEntry.SourceIP = ''192.168.1.50'',
             LogEntry.Domain = ''api.openai.com.'', LogEntry.URL = ''API.OpenAI.com.:443'',
             LogEntry.Method = ''CONNECT'', LogEntry.StatusCode = ''200'',
             LogEntry.BytesSent = pint ''0'',
             RawLine = squidLineTunnel ''API.OpenAI.com.:443''\<rparr>]
   \<and> dnsParse \<lparr>timeParse = \<lambda>layout s. Some ts, parseUnixTime = pu, ParseInt = pint,
                urlHostname = host, nowYear = y\<rparr>
        (TextFile [''2025-06-10T08:30:00Z 192.168.1.50 API.OpenAI.com. A''] False)
     = Inr [emptyEntry\<lparr>LogEntry.Timestamp := ts, LogEntry.SourceIP := ''192.168.1.50'',
                       LogEntry.Domain := ''api.openai.com'',
                       RawLine := ''2025-06-10T08:30:00Z 192.168.1.50 API.OpenAI.com. A''\<rparr>]
   \<and> matchDomain exampleAnalyzer ''api.openai.com.'' = None
   \<and> matchDomain exampleAnalyzer ''api.openai.com'' = Some svcOpenAIAPI"
  by code_simp

text \<open>
  Claim C8 does not hold of the code. Only the CSV parser tests for an empty domain.
  The Squid parser returns an entry with an empty domain for a request target without
  host, and the DNS parser returns one for a query of the root zone, whose name is a
  single dot.
\<close>

theorem empty_domain_entries:
  "squidParse \<lparr>timeParse = tp, parseUnixTime = \<lambda>s. Some ts, ParseInt = pint,
                urlHostname = host, nowYear = y\<rparr>
        (TextFile [squidLineTunnel '':443''] False)
     = Inr [\<lparr>LogEntry.Timestamp = ts, LogEntry.SourceIP = ''192.168.1.50'',
             LogEntry.Domain = [], LogEntry.URL = '':443'',
             LogEntry.Method = ''CONNECT'', LogEntry.StatusCode = ''200'',
             LogEntry.BytesSent = pint ''0'', RawLine = squidLineTunnel '':443''\<rparr>]
   \<and> dnsParse \<lparr>timeParse = \<lambda>layout s. Some ts, parseUnixTime = pu, ParseInt = pint,
                urlHostname = host, nowYear = y\<rparr>
        (TextFile [''2025-06-10T08:30:00Z 192.168.1.50 . NS''] False)
     = Inr [emptyEntry\<lparr>LogEntry.Timestamp := ts, LogEntry.SourceIP := ''192.168.1.50'',
                       LogEntry.Domain := [],
                       RawLine := ''2025-06-10T08:30:00Z 192.168.1.50 . NS''\<rparr>]"
  by code_simp

text \<open>
  Claim C9, as amended. When the text before the marker parses against the layout
  without year, the timestamp of the entry has the year of the clock with the parsed
  month, day and time of day, except that a parsed February 29 becomes March 1 when the
  year of the clock is not a leap year; when the text does not parse, the timestamp is
  the zero value.
\<close>

theorem dnsmasq_timestamp:
  assumes "parseDnsmasq lib line = Inr entry"
  shows "(timeParse lib ''Jan 2 15:04:05'' (timestampText line (Index line ''query['')) = None
            \<longrightarrow> LogEntry.Timestamp entry = zeroTime)
       \<and> (\<forall>t. timeParse lib ''Jan 2 15:04:05'' (timestampText line (Index line ''query['')) = Some t
                \<and> parsedYearless t
            \<longrightarrow> (\<not> (Month t = 2 \<and> Day t = 29 \<and> \<not> isLeap (nowYear lib))
                   \<longrightarrow> LogEntry.Timestamp entry = t\<lparr>Year := nowYear lib\<rparr>)
              \<and> (Month t = 2 \<and> Day t = 29 \<and> \<not> isLeap (nowYear lib)
                   \<longrightarrow> LogEntry.Timestamp entry = t\<lparr>Year := nowYear lib, Month := 3, Day := 1\<rparr>))"
  using parseDnsmasq_Timestamp[OF assms] by (auto simp: AddDate_yearless)

theorem dnsmasq_timestamp_witness:
  "parseDnsmasq exampleLib (dnsmasqLine ''Jun 10 08:30:00'')
     = Inr (emptyEntry\<lparr>LogEntry.Timestamp := jun10\<lparr>Year := 2025\<rparr>,
                       LogEntry.SourceIP := ''192.168.1.50'',
                       LogEntry.Domain := ''api.openai.com'',
                       RawLine := dnsmasqLine ''Jun 10 08:30:00''\<rparr>)
   \<and> parseDnsmasq exampleLib (dnsmasqLine ''Feb 29 08:30:00 myhost'')
     = Inr (emptyEntry\<lparr>LogEntry.Timestamp := feb29\<lparr>Year := 2025, Month := 3, Day := 1\<rparr>,
                       LogEntry.SourceIP := ''192.168.1.50'',
                       LogEntry.Domain := ''api.openai.com'',
                       RawLine := dnsmasqLine ''Feb 29 08:30:00 myhost''\<rparr>)
   \<and> parseDnsmasq exampleLib (dnsmasqLine ''Mon Jun 10 08:30:00 2025'')
     = Inr (emptyEntry\<lparr>LogEntry.Timestamp := zeroTime,
                       LogEntry.SourceIP := ''192.168.1.50'',
                       LogEntry.Domain := ''api.openai.com'',
                       RawLine := dnsmasqLine ''Mon Jun 10 08:30:00 2025''\<rparr>)"
proof -
  define e1 where "e1 = emptyEntry\<lparr>LogEntry.Timestamp := AddDate jun10 2025,
                       LogEntry.SourceIP := ''192.168.1.50'',
                       LogEntry.Domain := ''api.openai.com'',
                       RawLine := dnsmasqLine ''Jun 10 08:30:00''\<rparr>"
  define e2 where "e2 = emptyEntry\<lparr>LogEntry.Timestamp := AddDate feb29 2025,
                       LogEntry.SourceIP := ''192.168.1.50'',
                       LogEntry.Domain := ''api.openai.com'',
                       RawLine := dnsmasqLine ''Feb 29 08:30:00 myhost''\<rparr>"
  define e3 where "e3 = emptyEntry\<lparr>LogEntry.Timestamp := zeroTime,
                       LogEntry.SourceIP := ''192.168.1.50'',
                       LogEntry.Domain := ''api.openai.com'',
                       RawLine := dnsmasqLine ''Mon Jun 10 08:30:00 2025''\<rparr>"
  have p1: "parseDnsmasq exampleLib (dnsmasqLine ''Jun 10 08:30:00'') = Inr e1"
    unfolding e1_def by code_simp
  have p2: "parseDnsmasq exampleLib (dnsmasqLine ''Feb 29 08:30:00 myhost'') = Inr e2"
    unfolding e2_def by code_simp
  have p3: "parseDnsmasq exampleLib (dnsmasqLine ''Mon Jun 10 08:30:00 2025'') = Inr e3"
    unfolding e3_def by code_simp
  have y: "nowYear exampleLib = 2025" by code_simp
  have s1: "timeParse exampleLib ''Jan 2 15:04:05''
              (timestampText (dnsmasqLine ''Jun 10 08:30:00'')
                 (Index (dnsmasqLine ''Jun 10 08:30:00'') ''query['')) = Some jun10"
    by code_simp
  have s2: "timeParse exampleLib ''Jan 2 15:04:05''
              (timestampText (dnsmasqLine ''Feb 29 08:30:00 myhost'')
                 (Index (dnsmasqLine ''Feb 29 08:30:00 myhost'') ''query['')) = Some feb29"
    by code_simp
  have v: "parsedYearless jun10" "parsedYearless feb29"
    by code_simp+
  have c1: "\<not> (Month jun10 = 2 \<and> Day jun10 = 29 \<and> \<not> isLeap (nowYear exampleLib))"
    by code_simp
  have c2: "Month feb29 = 2 \<and> Day feb29 = 29 \<and> \<not> isLeap (nowYear exampleLib)"
    by code_simp
  have t1: "LogEntry.Timestamp e1 = jun10\<lparr>Year := 2025\<rparr>"
    using dnsmasq_timestamp[OF p1] s1 v(1) c1 y by metis
  have t2: "LogEntry.Timestamp e2 = feb29\<lparr>Year := 2025, Month := 3, Day := 1\<rparr>"
    using dnsmasq_timestamp[OF p2] s2 v(2) c2 y by metis
  have "e1 = emptyEntry\<lparr>LogEntry.Timestamp := jun10\<lparr>Year := 2025\<rparr>,
                       LogEntry.SourceIP := ''192.168.1.50'',
                       LogEntry.Domain := ''api.openai.com'',
                       RawLine := dnsmasqLine ''Jun 10 08:30:00''\<rparr>"
    using t1 by (simp add: e1_def)
  moreover have "e2 = emptyEntry\<lparr>LogEntry.Timestamp := feb29\<lparr>Year := 2025, Month := 3, Day := 1\<rparr>,
                       LogEntry.SourceIP := ''192.168.1.50'',
                       LogEntry.Domain := ''api.openai.com'',
                       RawLine := dnsmasqLine ''Feb 29 08:30:00 myhost''\<rparr>"
    using t2 by (simp add: e2_def)
  ultimately show ?thesis using p1 p2 p3 by (simp only: e3_def simp_thms)
qed

text \<open>
  The claim C9 as stated fails on February 29: in the year 2025 the entry is dated
  March 1, although the text parses to the month 2 and the day 29.
\<close>

theorem dnsmasq_timestamp_counterexample:
  "timeParse exampleLib ''Jan 2 15:04:05''
     (timestampText (dnsmasqLine ''Feb 29 08:30:00'')
        (Index (dnsmasqLine ''Feb 29 08:30:00'') ''query[''))
     = Some \<lparr>Year = 0, Month = 2, Day = 29, Hour = 8, Minute = 30, Second = 0,
             Nanosecond = 0, ZoneOffset = 0\<rparr>
   \<and> nowYear exampleLib = 2025
   \<and> parseDnsmasq exampleLib (dnsmasqLine ''Feb 29 08:30:00'')
     = Inr (emptyEntry\<lparr>LogEntry.Timestamp :=
                         \<lparr>Year = 2025, Month = 3, Day = 1, Hour = 8, Minute = 30, Second = 0,
                          Nanosecond = 0, ZoneOffset = 0\<rparr>,
                       LogEntry.SourceIP := ''192.168.1.50'',
                       LogEntry.Domain := ''api.openai.com'',
                       RawLine := dnsmasqLine ''Feb 29 08:30:00''\<rparr>)"
  by code_simp

end
